theory Spec2Isabelle
  imports Complex_Main "HOL-Library.AList"
begin

section \<open>Transformations and registries\<close>

text \<open>
  The engine of \<^verbatim>\<open>spatialdata/_core/operations/transform.py\<close> works on values of the
  classes of \<^verbatim>\<open>spatialdata.transformations\<close>. Numbers are rationals: every
  double is a rational, and the rounding of floating-point arithmetic is not modelled.
  Python names that start with an underscore lose it (\<^verbatim>\<open>_transform_raster\<close> is
  \<open>transform_raster\<close>).
\<close>

datatype error =
    RuntimeError
  | AssertionError
  | KeyError
  | TypeError
  | ValueError
  | IndexError
  | AxisMismatchError
  | NonInvertibleTransformError
  | CoordinateSystemNotFoundError
  | NonFiniteValue
  | NotModelled

type_synonym matrix = "rat list list"

datatype transformation =
    Identity
  | Translation "rat list" "string list"
  | Scale "rat list" "string list"
  | Affine matrix "string list" "string list"
  | Sequence "transformation list"

text \<open>
  A registry is the dict \<^verbatim>\<open>{coordinate system name: transformation}\<close> of one element,
  in insertion order.
\<close>

type_synonym registry = "(string \<times> transformation) list"

definition DEFAULT_COORDINATE_SYSTEM :: string where
  \<comment> \<open>Modelled from the spec: the reserved default coordinate-system name of
      \<^verbatim>\<open>spatialdata.models._utils\<close>; the constant is imported by the source, its value
      is not in it.\<close>
  "DEFAULT_COORDINATE_SYSTEM = ''global''"

definition get_transformation :: "registry \<Rightarrow> string option \<Rightarrow> error + transformation" where
  \<comment> \<open>Modelled from the spec: \<^verbatim>\<open>get(coordinate_system_name)\<close>, which fails with
      CoordinateSystemNotFoundError if the name is absent; no name means the default.\<close>
  "get_transformation d to_coordinate_system =
     (case map_of d (case to_coordinate_system of None \<Rightarrow> DEFAULT_COORDINATE_SYSTEM | Some cs \<Rightarrow> cs) of
        None \<Rightarrow> Inl CoordinateSystemNotFoundError
      | Some t \<Rightarrow> Inr t)"

definition set_transformation :: "registry \<Rightarrow> transformation \<Rightarrow> string option \<Rightarrow> registry" where
  \<comment> \<open>Modelled from the spec: sets the registry entry of one coordinate system, the
      default one when none is named (the function is in \<^verbatim>\<open>spatialdata.transformations\<close>).\<close>
  "set_transformation d t to_coordinate_system =
     AList.update (case to_coordinate_system of None \<Rightarrow> DEFAULT_COORDINATE_SYSTEM | Some cs \<Rightarrow> cs) t d"

definition remove_transformation_all :: "registry \<Rightarrow> registry" where
  \<comment> \<open>Modelled from the spec: \<^verbatim>\<open>remove_transformation(element, remove_all=True)\<close>.\<close>
  "remove_transformation_all d = []"

subsection \<open>Matrices\<close>

definition dot :: "rat list \<Rightarrow> rat list \<Rightarrow> rat" where
  "dot u v = sum_list (map2 (*) u v)"

definition mat_vec :: "matrix \<Rightarrow> rat list \<Rightarrow> rat list" where
  "mat_vec m v = map (\<lambda>row. dot row v) m"

definition ncols :: "'a list list \<Rightarrow> nat" where
  "ncols m = (case m of [] \<Rightarrow> 0 | row # _ \<Rightarrow> length row)"

definition col :: "'a list list \<Rightarrow> nat \<Rightarrow> 'a list" where
  \<comment> \<open>\<^verbatim>\<open>m[:, j]\<close>\<close>
  "col m j = map (\<lambda>row. row ! j) m"

definition mat_mul :: "matrix \<Rightarrow> matrix \<Rightarrow> matrix" where
  \<comment> \<open>\<^verbatim>\<open>a @ b\<close>\<close>
  "mat_mul a b = map (\<lambda>row. map (\<lambda>j. dot row (col b j)) [0..<ncols b]) a"

definition unit_vec :: "nat \<Rightarrow> nat \<Rightarrow> rat list" where
  "unit_vec n i = map (\<lambda>j. if j = i then 1 else 0) [0..<n]"

definition eye :: "nat \<Rightarrow> matrix" where
  "eye n = map (unit_vec n) [0..<n]"

definition drop_nth :: "nat \<Rightarrow> 'a list \<Rightarrow> 'a list" where
  "drop_nth i xs = take i xs @ drop (Suc i) xs"

definition minor_matrix :: "matrix \<Rightarrow> nat \<Rightarrow> nat \<Rightarrow> matrix" where
  "minor_matrix m i j = map (drop_nth j) (drop_nth i m)"

fun det :: "nat \<Rightarrow> matrix \<Rightarrow> rat" where
  "det 0 m = 1"
| "det (Suc n) m =
     sum_list (map (\<lambda>j. (- 1) ^ j * (m ! 0 ! j) * det n (minor_matrix m 0 j)) [0..<Suc n])"

definition mat_inverse :: "matrix \<Rightarrow> matrix option" where
  \<comment> \<open>the inverse of a square matrix by cofactors; None when the determinant is zero\<close>
  "mat_inverse m =
     (let n = length m; d = det n m in
      if d = 0 \<or> (\<exists>row \<in> set m. length row \<noteq> n) then None
      else Some (map (\<lambda>i. map (\<lambda>j. (- 1) ^ (i + j) * det (n - 1) (minor_matrix m j i) / d) [0..<n]) [0..<n]))"

subsection \<open>The operations of a transformation\<close>

fun collect :: "(error + 'a) list \<Rightarrow> error + 'a list" where
  "collect [] = Inr []"
| "collect (Inl e # rs) = Inl e"
| "collect (Inr x # rs) = (case collect rs of Inl e \<Rightarrow> Inl e | Inr xs \<Rightarrow> Inr (x # xs))"

fun inverse_transformation :: "transformation \<Rightarrow> error + transformation" where
  \<comment> \<open>Modelled from the spec: \<^verbatim>\<open>inverse()\<close> of section 4.1, defined for every variant and
      failing with NonInvertibleTransformError on a singular matrix; the class is in
      \<^verbatim>\<open>spatialdata.transformations.transformations\<close>.\<close>
  "inverse_transformation Identity = Inr Identity"
| "inverse_transformation (Translation v ax) = Inr (Translation (map uminus v) ax)"
| "inverse_transformation (Scale s ax) =
     (if 0 \<in> set s then Inl NonInvertibleTransformError else Inr (Scale (map inverse s) ax))"
| "inverse_transformation (Affine m inp out) =
     (case mat_inverse m of
        None \<Rightarrow> Inl NonInvertibleTransformError
      | Some m' \<Rightarrow> Inr (Affine m' out inp))"
| "inverse_transformation (Sequence ts) =
     (case collect (map inverse_transformation ts) of
        Inl e \<Rightarrow> Inl e
      | Inr ts' \<Rightarrow> Inr (Sequence (rev ts')))"

definition axis_value :: "string list \<Rightarrow> rat list \<Rightarrow> rat \<Rightarrow> string \<Rightarrow> rat" where
  \<comment> \<open>the entry a vector over the axes \<open>ax\<close> has for one axis, a default where the axis is not named\<close>
  "axis_value ax v dflt a = (case map_of (zip ax v) a of None \<Rightarrow> dflt | Some x \<Rightarrow> x)"

definition index_of :: "string list \<Rightarrow> string \<Rightarrow> nat" where
  "index_of ax a = length (takeWhile (\<lambda>b. b \<noteq> a) ax)"

definition axes_ok :: "string list \<Rightarrow> nat \<Rightarrow> string list \<Rightarrow> bool" where
  \<comment> \<open>the axes of a transformation are distinct, as many as its entries, and all requested\<close>
  "axes_ok ax n axes \<longleftrightarrow> distinct ax \<and> length ax = n \<and> set ax \<subseteq> set axes"

definition affine_entry :: "matrix \<Rightarrow> string list \<Rightarrow> string list \<Rightarrow> string list \<Rightarrow> nat \<Rightarrow> nat \<Rightarrow> rat" where
  \<comment> \<open>entry (i, j) of the matrix of an Affine over the requested axes; column
      \<open>length axes\<close> is the translation column\<close>
  "affine_entry m inp out axes i j =
     (if axes ! i \<in> set out then
        (if j = length axes then m ! index_of out (axes ! i) ! length inp
         else if axes ! j \<in> set inp then m ! index_of out (axes ! i) ! index_of inp (axes ! j)
         else 0)
      else (if j = i then 1 else 0))"

fun to_affine_matrix :: "transformation \<Rightarrow> string list \<Rightarrow> error + matrix" where
  \<comment> \<open>Modelled from the spec: \<^verbatim>\<open>to_affine_matrix(input_axes=axes, output_axes=axes)\<close>, the
      only form the source calls. An axis of the transformation that is not requested is
      an AxisMismatchError (sections 4.3 and 7); a requested axis the transformation does
      not name is passed through unchanged, as the source needs when it puts a
      Translation over the spatial axes in a Sequence over all axes. A Sequence applies
      its members in list order, so a later member multiplies from the left.\<close>
  "to_affine_matrix Identity axes = Inr (eye (length axes + 1))"
| "to_affine_matrix (Translation v ax) axes =
     (if axes_ok ax (length v) axes then
        Inr (map (\<lambda>i. butlast (unit_vec (length axes + 1) i) @ [axis_value ax v 0 (axes ! i)]) [0..<length axes]
             @ [unit_vec (length axes + 1) (length axes)])
      else Inl AxisMismatchError)"
| "to_affine_matrix (Scale s ax) axes =
     (if axes_ok ax (length s) axes then
        Inr (map (\<lambda>i. map (\<lambda>j. if j = i then axis_value ax s 1 (axes ! i) else 0) [0..<length axes + 1]) [0..<length axes]
             @ [unit_vec (length axes + 1) (length axes)])
      else Inl AxisMismatchError)"
| "to_affine_matrix (Affine m inp out) axes =
     (if axes_ok inp (length inp) axes \<and> axes_ok out (length out) axes
         \<and> length m = length out + 1 \<and> (\<forall>row \<in> set m. length row = length inp + 1) then
        Inr (map (\<lambda>i. map (\<lambda>j. affine_entry m inp out axes i j) [0..<length axes + 1]) [0..<length axes]
             @ [unit_vec (length axes + 1) (length axes)])
      else Inl AxisMismatchError)"
| "to_affine_matrix (Sequence ts) axes =
     (case collect (map (\<lambda>t. to_affine_matrix t axes) ts) of
        Inl e \<Rightarrow> Inl e
      | Inr ms \<Rightarrow> Inr (fold (\<lambda>m acc. mat_mul m acc) ms (eye (length axes + 1))))"

section \<open>Resolving the transformation to apply\<close>

text \<open>
  \<^verbatim>\<open>_validate_target_coordinate_systems\<close>: \<open>d\<close> is the registry of the element,
  \<^verbatim>\<open>get_transformation(data, get_all=True)\<close>. A failed \<^verbatim>\<open>assert\<close> is AssertionError,
  \<^verbatim>\<open>raise RuntimeError(ERROR_MSG_AFTER_0_0_15)\<close> is RuntimeError. The deprecation warning
  of the compatibility branch is not part of the returned value.
\<close>

definition validate_target_coordinate_systems ::
  "registry \<Rightarrow> transformation option \<Rightarrow> bool \<Rightarrow> string option
     \<Rightarrow> error + (transformation \<times> string option)" where
  "validate_target_coordinate_systems d transformation maintain_positioning to_coordinate_system =
     (if \<not> maintain_positioning then
        (if transformation = None \<and> to_coordinate_system \<noteq> None then
           (case map_of d (the to_coordinate_system) of
              None \<Rightarrow> Inl AssertionError
            | Some t \<Rightarrow> Inr (t, to_coordinate_system))
         else if transformation \<noteq> None \<and> to_coordinate_system = None \<and> length d = 1
                 \<and> the transformation = snd (hd d) then
           Inr (the transformation, Some (fst (hd d)))
         else Inl RuntimeError)
      else if (transformation = None) = (to_coordinate_system = None) then Inl AssertionError
      else (case transformation of
              Some t \<Rightarrow> Inr (t, to_coordinate_system)
            | None \<Rightarrow> (case get_transformation d to_coordinate_system of
                         Inl e \<Rightarrow> Inl e
                       | Inr t \<Rightarrow> Inr (t, None))))"

section \<open>Adjusting the registry of a transformed element\<close>

datatype element_kind =
    SpatialImage
  | MultiscaleSpatialImage
  | GeoDataFrame
  | DaskDataFrame
  | OtherElement

text \<open>
  \<^verbatim>\<open>_adjust_transformations\<close>: \<open>d\<close> is the registry the new element has when the
  function is called, and the result is the registry it has afterwards.
\<close>

definition to_prepend_of ::
  "element_kind \<Rightarrow> transformation \<Rightarrow> transformation option \<Rightarrow> bool \<Rightarrow> error + transformation" where
  "to_prepend_of kind transformation raster_translation maintain_positioning =
     (if kind = SpatialImage \<or> kind = MultiscaleSpatialImage then
        (if maintain_positioning then
           (case raster_translation of
              None \<Rightarrow> Inl AssertionError
            | Some rt \<Rightarrow> (case inverse_transformation transformation of
                           Inl e \<Rightarrow> Inl e
                         | Inr ti \<Rightarrow> Inr (Sequence [rt, ti])))
         else (case raster_translation of
                 None \<Rightarrow> Inl AssertionError
               | Some rt \<Rightarrow> Inr rt))
      else if kind = GeoDataFrame \<or> kind = DaskDataFrame then
        (if raster_translation \<noteq> None then Inl AssertionError
         else if maintain_positioning then inverse_transformation transformation
         else Inr Identity)
      else Inl TypeError)"

definition check_placeholder :: "registry \<Rightarrow> error + unit" where
  \<comment> \<open>\<^verbatim>\<open>assert len(d) == 1; assert isinstance(d[DEFAULT_COORDINATE_SYSTEM], Identity)\<close>\<close>
  "check_placeholder d =
     (if length d \<noteq> 1 then Inl AssertionError
      else (case map_of d DEFAULT_COORDINATE_SYSTEM of
              None \<Rightarrow> Inl KeyError
            | Some t \<Rightarrow> if t = Identity then Inr () else Inl AssertionError))"

definition adjust_transformations ::
  "element_kind \<Rightarrow> registry \<Rightarrow> registry \<Rightarrow> transformation \<Rightarrow> transformation option \<Rightarrow> bool
     \<Rightarrow> string option \<Rightarrow> error + registry" where
  "adjust_transformations kind d old_transformations transformation raster_translation
       maintain_positioning to_coordinate_system =
     (if maintain_positioning \<and> to_coordinate_system \<noteq> None then Inl AssertionError
      else (case to_prepend_of kind transformation raster_translation maintain_positioning of
              Inl e \<Rightarrow> Inl e
            | Inr to_prepend \<Rightarrow>
                (case check_placeholder d of
                   Inl e \<Rightarrow> Inl e
                 | Inr _ \<Rightarrow>
                     (if maintain_positioning then
                        Inr (fold (\<lambda>(cs, t) r. set_transformation r (Sequence [to_prepend, t]) (Some cs))
                               old_transformations (remove_transformation_all d))
                      else Inr (set_transformation (remove_transformation_all d) to_prepend
                                  to_coordinate_system)))))"


section \<open>Transforming a raster\<close>

text \<open>
  \<^verbatim>\<open>_transform_raster\<close> gets the shape of the array (the only part of \<^verbatim>\<open>data\<close> it
  reads), the axes and the transformation. The resampling itself is done by
  \<^verbatim>\<open>dask_image.ndinterp.affine_transform\<close>, outside the repository: the model returns
  the arguments of that call, whose result is an array of shape \<open>output_shape\<close>, and the
  \<open>raster_translation\<close>. The axes of an element are distinct and as many as the
  dimensions of its array (the models that check this are not in the source); another
  input is a ValueError here. \<open>NonFiniteValue\<close> is not an exception of the source: it
  marks the division by a spatial extent of zero, where numpy goes on with \<^verbatim>\<open>nan\<close> or
  \<^verbatim>\<open>inf\<close>, which a rational cannot carry.
\<close>

datatype kwarg = Prefilter bool | Order nat

record raster_result =
  resample_matrix :: matrix
  output_shape :: "int list"
  resample_kwargs :: "kwarg list"
  raster_translation :: transformation

definition get_n_spatial_dims :: "string list \<Rightarrow> nat" where
  \<comment> \<open>Modelled from the spec: the number of spatial axes, every axis but the channel
      axis \<^verbatim>\<open>c\<close> (\<^verbatim>\<open>BaseTransformation._get_n_spatial_dims\<close> is not in the source).\<close>
  "get_n_spatial_dims axes = length (filter (\<lambda>a. a \<noteq> ''c'') axes)"

fun product01 :: "nat \<Rightarrow> nat list list" where
  \<comment> \<open>\<^verbatim>\<open>itertools.product([0, 1], repeat=n)\<close>\<close>
  "product01 0 = [[]]"
| "product01 (Suc n) = map (\<lambda>r. 0 # r) (product01 n) @ map (\<lambda>r. 1 # r) (product01 n)"

definition py_int :: "rat \<Rightarrow> int" where
  \<comment> \<open>\<^verbatim>\<open>int(x)\<close> of a float: truncation towards zero\<close>
  "py_int x = (if 0 \<le> x then \<lfloor>x\<rfloor> else \<lceil>x\<rceil>)"

definition np_max :: "rat list \<Rightarrow> rat" where
  "np_max xs = Max (set xs)"

definition np_min :: "rat list \<Rightarrow> rat" where
  "np_min xs = Min (set xs)"

definition corner_points :: "nat list \<Rightarrow> string list \<Rightarrow> rat list list" where
  \<comment> \<open>the array \<^verbatim>\<open>v\<close>: one homogeneous row for each corner of the spatial extent\<close>
  "corner_points shape axes =
     (let n_spatial_dims = get_n_spatial_dims axes;
          spatial_shape = drop (length shape - n_spatial_dims) shape;
          binary = map (\<lambda>b. map2 (*) b spatial_shape) (product01 n_spatial_dims);
          c_channel = (if ''c'' \<in> set axes then [0] else [])
      in map (\<lambda>b. c_channel @ map rat_of_nat b @ [1]) binary)"

definition transform_raster ::
  "nat list \<Rightarrow> string list \<Rightarrow> transformation \<Rightarrow> kwarg list \<Rightarrow> error + raster_result" where
  "transform_raster shape axes transformation kwargs =
     (if length shape \<noteq> length axes \<or> \<not> distinct axes then Inl ValueError
      else
        let n_spatial_dims = get_n_spatial_dims axes;
            spatial_shape = drop (length shape - n_spatial_dims) shape;
            v = corner_points shape axes
        in case to_affine_matrix transformation axes of
             Inl e \<Rightarrow> Inl e
           | Inr matrix \<Rightarrow>
               let new_v = map (mat_vec matrix) v;
                   c_shape = (if ''c'' \<in> set axes then [int (shape ! 0)] else []);
                   new_spatial_shape =
                     map (\<lambda>i. py_int (np_max (col new_v i) - np_min (col new_v i)))
                       [length c_shape..<n_spatial_dims + length c_shape];
                   output_shape = c_shape @ new_spatial_shape;
                   translation_vector =
                     map (\<lambda>i. np_min (col (map butlast new_v) i)) [0..<ncols (map butlast new_v)];
                   translation = Translation translation_vector axes;
                   spatial_axes =
                     (if n_spatial_dims = 0 then axes else drop (length axes - n_spatial_dims) axes)
               in case inverse_transformation transformation of
                    Inl e \<Rightarrow> Inl e
                  | Inr ti \<Rightarrow>
                      (case to_affine_matrix (Sequence [translation, ti]) axes of
                         Inl e \<Rightarrow> Inl e
                       | Inr inverse_matrix_adjusted \<Rightarrow>
                           if 0 \<in> set spatial_shape then Inl NonFiniteValue
                           else
                             let new_pixel_sizes =
                                   map2 (\<lambda>a b. rat_of_int a / rat_of_nat b) new_spatial_shape spatial_shape;
                                 new_pixel_size_offset =
                                   Translation (map (\<lambda>p. - p / 2 + 1 / 2) new_pixel_sizes) spatial_axes
                             in Inr \<lparr>resample_matrix = inverse_matrix_adjusted,
                                     output_shape = output_shape,
                                     resample_kwargs = kwargs,
                                     raster_translation = Sequence [new_pixel_size_offset, translation]\<rparr>))"

section \<open>The registered implementations of \<^verbatim>\<open>transform\<close>\<close>

text \<open>
  Each implementation resolves the transformation, builds the new element with a
  placeholder registry, and hands it to \<^verbatim>\<open>_adjust_transformations\<close>, always without a
  \<^verbatim>\<open>to_coordinate_system\<close> argument. The function with the suffix \<open>_data\<close> is the
  part up to that call; it returns the new element as it is at the call. The final
  validation by the schema (\<^verbatim>\<open>validate\<close>) and \<^verbatim>\<open>compute_coordinates\<close> belong to
  modules outside the source and are not modelled.
\<close>

subsection \<open>SpatialImage\<close>

record data_array =
  data_shape :: "nat list"
  data_dims :: "string list"
  transform_attr :: registry

record transformed_image =
  resampled :: raster_result
  image_dims :: "string list"
  image_transform :: registry

definition schema_parse :: "raster_result \<Rightarrow> string list \<Rightarrow> transformed_image" where
  \<comment> \<open>Modelled from the spec: \<^verbatim>\<open>schema.parse(transformed_dask, dims=axes, c_coords=c_coords)\<close>;
      a schema parser builds the element with a single Identity entry in the default
      coordinate system (section 3, lifecycle).\<close>
  "schema_parse r axes =
     \<lparr>resampled = r, image_dims = axes,
      image_transform = [(DEFAULT_COORDINATE_SYSTEM, Identity)]\<rparr>"

definition transform_image_data ::
  "data_array \<Rightarrow> transformation option \<Rightarrow> bool \<Rightarrow> string option
     \<Rightarrow> error + (transformed_image \<times> transformation)" where
  "transform_image_data data transformation maintain_positioning to_coordinate_system =
     (case validate_target_coordinate_systems (transform_attr data) transformation
             maintain_positioning to_coordinate_system of
        Inl e \<Rightarrow> Inl e
      | Inr (t, to_cs) \<Rightarrow>
          (case transform_raster (data_shape data) (data_dims data) t [Prefilter False, Order 0] of
             Inl e \<Rightarrow> Inl e
           | Inr r \<Rightarrow> Inr (schema_parse r (data_dims data), t)))"

definition transform_image ::
  "data_array \<Rightarrow> transformation option \<Rightarrow> bool \<Rightarrow> string option \<Rightarrow> error + transformed_image" where
  "transform_image data transformation maintain_positioning to_coordinate_system =
     (case transform_image_data data transformation maintain_positioning to_coordinate_system of
        Inl e \<Rightarrow> Inl e
      | Inr (transformed_data, t) \<Rightarrow>
          (case adjust_transformations SpatialImage (image_transform transformed_data)
                  (transform_attr data) t (Some (raster_translation (resampled transformed_data)))
                  maintain_positioning None of
             Inl e \<Rightarrow> Inl e
           | Inr r \<Rightarrow> Inr (transformed_data\<lparr>image_transform := r\<rparr>)))"

subsection \<open>MultiscaleSpatialImage\<close>

text \<open>
  A pyramid is the list of its items \<^verbatim>\<open>(k, v)\<close>, \<open>v\<close> being the data arrays of one
  level. \<^verbatim>\<open>_get_scale\<close> is imported from a module outside the source and is a parameter
  here; \<^verbatim>\<open>get_model\<close> is the schema given with the pyramid.
\<close>

datatype schema =
    Image2DModel | Image3DModel | Labels2DModel | Labels3DModel | PointsModel | ShapesModel

record multiscale =
  levels :: "(string \<times> data_array list) list"
  multiscale_schema :: schema
  multiscale_transform :: registry

record transformed_multiscale =
  transformed_levels :: "(string \<times> transformed_image) list"
  pyramid_transform :: registry

definition composed_for ::
  "(registry \<Rightarrow> error + transformation) \<Rightarrow> string \<Rightarrow> data_array \<Rightarrow> transformation
     \<Rightarrow> error + transformation" where
  "composed_for get_scale k xdata transformation =
     (if k = ''scale0'' then Inr transformation
      else (case get_scale (transform_attr xdata) of
              Inl e \<Rightarrow> Inl e
            | Inr scale \<Rightarrow>
                (case inverse_transformation scale of
                   Inl e \<Rightarrow> Inl e
                 | Inr scale_inverse \<Rightarrow> Inr (Sequence [scale, transformation, scale_inverse]))))"

fun transform_levels ::
  "(registry \<Rightarrow> error + transformation) \<Rightarrow> transformation \<Rightarrow> kwarg list
     \<Rightarrow> (string \<times> data_array list) list \<Rightarrow> transformation option
     \<Rightarrow> error + ((string \<times> transformed_image) list \<times> transformation option)" where
  "transform_levels get_scale transformation kwargs [] rt = Inr ([], rt)"
| "transform_levels get_scale transformation kwargs ((k, v) # rest) rt =
     (case v of
        [xdata] \<Rightarrow>
          (case composed_for get_scale k xdata transformation of
             Inl e \<Rightarrow> Inl e
           | Inr composed \<Rightarrow>
               (case transform_raster (data_shape xdata) (data_dims xdata) composed kwargs of
                  Inl e \<Rightarrow> Inl e
                | Inr r \<Rightarrow>
                    (case transform_levels get_scale transformation kwargs rest
                            (case rt of None \<Rightarrow> Some (raster_translation r) | Some x \<Rightarrow> Some x) of
                       Inl e \<Rightarrow> Inl e
                     | Inr (out, rt') \<Rightarrow>
                         Inr ((k, \<lparr>resampled = r, image_dims = data_dims xdata, image_transform = []\<rparr>) # out,
                              rt'))))
      | _ \<Rightarrow> Inl AssertionError)"

definition transform_multiscale_data ::
  "(registry \<Rightarrow> error + transformation) \<Rightarrow> multiscale \<Rightarrow> transformation option \<Rightarrow> bool
     \<Rightarrow> string option \<Rightarrow> error + (transformed_multiscale \<times> transformation \<times> transformation option)" where
  "transform_multiscale_data get_scale data transformation maintain_positioning to_coordinate_system =
     (case validate_target_coordinate_systems (multiscale_transform data) transformation
             maintain_positioning to_coordinate_system of
        Inl e \<Rightarrow> Inl e
      | Inr (t, to_cs) \<Rightarrow>
          (if multiscale_schema data \<notin> {Labels2DModel, Labels3DModel, Image2DModel, Image3DModel}
           then Inl ValueError
           else
             (case transform_levels get_scale t
                     (if multiscale_schema data \<in> {Labels2DModel, Labels3DModel}
                      then [Prefilter False] else [])
                     (levels data) None of
                Inl e \<Rightarrow> Inl e
              | Inr (transformed_dict, rt) \<Rightarrow>
                  Inr (\<lparr>transformed_levels = transformed_dict,
                        pyramid_transform = set_transformation [] Identity (Some DEFAULT_COORDINATE_SYSTEM)\<rparr>,
                       t, rt))))"

definition transform_multiscale ::
  "(registry \<Rightarrow> error + transformation) \<Rightarrow> multiscale \<Rightarrow> transformation option \<Rightarrow> bool
     \<Rightarrow> string option \<Rightarrow> error + transformed_multiscale" where
  "transform_multiscale get_scale data transformation maintain_positioning to_coordinate_system =
     (case transform_multiscale_data get_scale data transformation maintain_positioning
             to_coordinate_system of
        Inl e \<Rightarrow> Inl e
      | Inr (transformed_data, t, rt) \<Rightarrow>
          (case adjust_transformations MultiscaleSpatialImage (pyramid_transform transformed_data)
                  (multiscale_transform data) t rt maintain_positioning None of
             Inl e \<Rightarrow> Inl e
           | Inr r \<Rightarrow> Inr (transformed_data\<lparr>pyramid_transform := r\<rparr>)))"

subsection \<open>DaskDataFrame: a table of points\<close>

text \<open>
  A table is the list of its columns in order. \<^verbatim>\<open>get_axes_names\<close> belongs to the models
  and is the parameter \<open>axes\<close>; the names it returns are distinct, another list is a
  ValueError here. A column that does not hold numbers cannot enter the matrix product
  (TypeError).
\<close>

datatype column = NumCol "rat list" | ObjCol "string list"

record points_table =
  columns :: "(string \<times> column) list"
  points_transform :: registry

definition nrows :: "(string \<times> column) list \<Rightarrow> nat" where
  \<comment> \<open>\<^verbatim>\<open>len(data)\<close>\<close>
  "nrows cols = (case cols of [] \<Rightarrow> 0
                 | (_, NumCol xs) # _ \<Rightarrow> length xs
                 | (_, ObjCol xs) # _ \<Rightarrow> length xs)"

fun coordinate_arrays :: "(string \<times> column) list \<Rightarrow> string list \<Rightarrow> error + rat list list" where
  \<comment> \<open>the loop \<^verbatim>\<open>for ax in axes: arrays.append(data[ax]...)\<close>\<close>
  "coordinate_arrays cols [] = Inr []"
| "coordinate_arrays cols (ax # axes) =
     (case map_of cols ax of
        None \<Rightarrow> Inl KeyError
      | Some (ObjCol _) \<Rightarrow> Inl TypeError
      | Some (NumCol xs) \<Rightarrow>
          (case coordinate_arrays cols axes of Inl e \<Rightarrow> Inl e | Inr arrays \<Rightarrow> Inr (xs # arrays)))"

definition concatenate_columns :: "nat \<Rightarrow> rat list list \<Rightarrow> rat list list" where
  \<comment> \<open>\<^verbatim>\<open>da.concatenate(arrays, axis=1)\<close>: row \<open>r\<close> holds entry \<open>r\<close> of every array\<close>
  "concatenate_columns n arrays = map (\<lambda>r. map (\<lambda>xs. xs ! r) arrays) [0..<n]"

definition transform_coordinates :: "transformation \<Rightarrow> string list \<Rightarrow> rat list list \<Rightarrow> error + rat list list" where
  \<comment> \<open>Modelled from the spec: \<^verbatim>\<open>BaseTransformation._transform_coordinates\<close>, which builds
      the homogeneous coordinates, multiplies them from the left by the matrix of the
      transformation over the spatial axis names, and drops the homogeneous entry
      (section 4.5).\<close>
  "transform_coordinates t axes rows =
     (case to_affine_matrix t axes of
        Inl e \<Rightarrow> Inl e
      | Inr matrix \<Rightarrow> Inr (map (\<lambda>row. butlast (mat_vec matrix (row @ [1]))) rows))"

definition drop_columns :: "string list \<Rightarrow> (string \<times> column) list \<Rightarrow> (string \<times> column) list" where
  \<comment> \<open>\<^verbatim>\<open>data.drop(columns=list(axes))\<close>\<close>
  "drop_columns axes cols = filter (\<lambda>(name, c). name \<notin> set axes) cols"

definition assign_columns ::
  "string list \<Rightarrow> rat list list \<Rightarrow> (string \<times> column) list \<Rightarrow> (string \<times> column) list" where
  \<comment> \<open>the loop \<^verbatim>\<open>for ax in axes: transformed[ax] = xtransformed[:, dim == ax].flatten()\<close>\<close>
  "assign_columns axes xtransformed cols =
     fold (\<lambda>ax acc. AList.update ax (NumCol (col xtransformed (index_of axes ax))) acc) axes cols"

definition transform_points_data ::
  "points_table \<Rightarrow> string list \<Rightarrow> transformation option \<Rightarrow> bool \<Rightarrow> string option
     \<Rightarrow> error + (points_table \<times> transformation)" where
  "transform_points_data data axes transformation maintain_positioning to_coordinate_system =
     (case validate_target_coordinate_systems (points_transform data) transformation
             maintain_positioning to_coordinate_system of
        Inl e \<Rightarrow> Inl e
      | Inr (t, to_cs) \<Rightarrow>
          (if \<not> distinct axes then Inl ValueError
           else
             (case coordinate_arrays (columns data) axes of
                Inl e \<Rightarrow> Inl e
              | Inr arrays \<Rightarrow>
                  (case transform_coordinates t axes
                          (concatenate_columns (nrows (columns data)) arrays) of
                     Inl e \<Rightarrow> Inl e
                   | Inr xtransformed \<Rightarrow>
                       Inr (\<lparr>columns = assign_columns axes xtransformed
                                          (drop_columns axes (columns data)),
                             points_transform = [(DEFAULT_COORDINATE_SYSTEM, Identity)]\<rparr>,
                            t)))))"

definition transform_points ::
  "points_table \<Rightarrow> string list \<Rightarrow> transformation option \<Rightarrow> bool \<Rightarrow> string option
     \<Rightarrow> error + points_table" where
  "transform_points data axes transformation maintain_positioning to_coordinate_system =
     (case transform_points_data data axes transformation maintain_positioning
             to_coordinate_system of
        Inl e \<Rightarrow> Inl e
      | Inr (transformed, t) \<Rightarrow>
          (case adjust_transformations DaskDataFrame (points_transform transformed)
                  (points_transform data) t None maintain_positioning None of
             Inl e \<Rightarrow> Inl e
           | Inr r \<Rightarrow> Inr (transformed\<lparr>points_transform := r\<rparr>)))"

subsection \<open>GeoDataFrame: a set of shapes\<close>

text \<open>
  The geometries are the \<^verbatim>\<open>geometry\<close> column, \<open>shape_columns\<close> the other columns. A
  vertex is the list of its coordinates; a polygon is its rings. \<open>ndim\<close> is
  \<^verbatim>\<open>len(get_axes_names(data))\<close>. The eigenvalues of the linear block come from
  \<^verbatim>\<open>np.linalg.eigvals\<close>; the parameter \<open>eigen_moduli\<close> gives their absolute values
  (\<^verbatim>\<open>modules\<close>). The result carries whether the warning was logged.
\<close>

datatype geometry =
    Point "rat list"
  | Polygon "rat list list list"
  | MultiPolygon "rat list list list list"

record shapes_frame =
  geometry :: "geometry list"
  shape_columns :: "(string \<times> column) list"
  shapes_transform :: registry

definition affine_vertex :: "matrix \<Rightarrow> rat list \<Rightarrow> rat list" where
  \<comment> \<open>shapely's \<^verbatim>\<open>affine_transform\<close> on one vertex, with the coefficients
      \<^verbatim>\<open>matrix[:-1, :-1].ravel().tolist() + matrix[:-1, -1].tolist()\<close>\<close>
  "affine_vertex matrix p =
     map2 (+) (mat_vec (map butlast (butlast matrix)) p) (map last (butlast matrix))"

fun affine_geometry :: "matrix \<Rightarrow> geometry \<Rightarrow> geometry" where
  "affine_geometry matrix (Point p) = Point (affine_vertex matrix p)"
| "affine_geometry matrix (Polygon rings) = Polygon (map (map (affine_vertex matrix)) rings)"
| "affine_geometry matrix (MultiPolygon polys) =
     MultiPolygon (map (map (map (affine_vertex matrix))) polys)"

fun is_Point :: "geometry \<Rightarrow> bool" where
  "is_Point (Point p) = True"
| "is_Point g = False"

definition allclose :: "rat list \<Rightarrow> rat \<Rightarrow> bool" where
  \<comment> \<open>\<^verbatim>\<open>np.allclose(a, b)\<close> with the defaults \<^verbatim>\<open>rtol=1e-05, atol=1e-08\<close>\<close>
  "allclose a b \<longleftrightarrow> (\<forall>x \<in> set a. \<bar>x - b\<bar> \<le> 1 / 100000000 + (1 / 100000) * \<bar>b\<bar>)"

definition np_mean :: "rat list \<Rightarrow> rat" where
  "np_mean xs = sum_list xs / rat_of_nat (length xs)"

definition scale_radius ::
  "rat list \<Rightarrow> (string \<times> column) list \<Rightarrow> error + ((string \<times> column) list \<times> bool)" where
  \<comment> \<open>the body of the \<^verbatim>\<open>if\<close> on the radius; the second component tells whether
      \<^verbatim>\<open>logger.warning\<close> was called\<close>
  "scale_radius modules cols =
     (case modules of
        [] \<Rightarrow> Inl IndexError
      | m0 # _ \<Rightarrow>
          (let warned = \<not> allclose modules m0;
               scale_factor = (if warned then np_mean modules else m0)
           in case map_of cols ''radius'' of
                Some (NumCol old_radius) \<Rightarrow>
                  Inr (AList.update ''radius'' (NumCol (map (\<lambda>r. r * scale_factor) old_radius)) cols,
                       warned)
              | Some (ObjCol _) \<Rightarrow> Inl TypeError
              | None \<Rightarrow> Inl KeyError))"

definition transform_shapes_data ::
  "(matrix \<Rightarrow> rat list) \<Rightarrow> shapes_frame \<Rightarrow> nat \<Rightarrow> transformation option \<Rightarrow> bool
     \<Rightarrow> string option \<Rightarrow> error + (shapes_frame \<times> bool \<times> transformation)" where
  "transform_shapes_data eigen_moduli data ndim transformation maintain_positioning
       to_coordinate_system =
     (case validate_target_coordinate_systems (shapes_transform data) transformation
             maintain_positioning to_coordinate_system of
        Inl e \<Rightarrow> Inl e
      | Inr (t, to_cs) \<Rightarrow>
          (case to_affine_matrix t (take ndim [''x'', ''y'', ''z'']) of
             Inl e \<Rightarrow> Inl e
           | Inr matrix \<Rightarrow>
               (let transformed_geometry = map (affine_geometry matrix) (geometry data)
                in case transformed_geometry of
                     [] \<Rightarrow> Inl IndexError
                   | g0 # _ \<Rightarrow>
                       (if is_Point g0 \<and> ''radius'' \<in> fst ` set (shape_columns data) then
                          (case scale_radius (eigen_moduli (map butlast (butlast matrix)))
                                  (shape_columns data) of
                             Inl e \<Rightarrow> Inl e
                           | Inr (cols, warned) \<Rightarrow>
                               Inr (\<lparr>geometry = transformed_geometry, shape_columns = cols,
                                     shapes_transform = [(DEFAULT_COORDINATE_SYSTEM, Identity)]\<rparr>,
                                    warned, t))
                        else
                          Inr (\<lparr>geometry = transformed_geometry,
                                shape_columns = shape_columns data,
                                shapes_transform = [(DEFAULT_COORDINATE_SYSTEM, Identity)]\<rparr>,
                               False, t)))))"

definition transform_shapes ::
  "(matrix \<Rightarrow> rat list) \<Rightarrow> shapes_frame \<Rightarrow> nat \<Rightarrow> transformation option \<Rightarrow> bool
     \<Rightarrow> string option \<Rightarrow> error + (shapes_frame \<times> bool)" where
  "transform_shapes eigen_moduli data ndim transformation maintain_positioning
       to_coordinate_system =
     (case transform_shapes_data eigen_moduli data ndim transformation maintain_positioning
             to_coordinate_system of
        Inl e \<Rightarrow> Inl e
      | Inr (transformed_data, warned, t) \<Rightarrow>
          (case adjust_transformations GeoDataFrame (shapes_transform transformed_data)
                  (shapes_transform data) t None maintain_positioning None of
             Inl e \<Rightarrow> Inl e
           | Inr r \<Rightarrow> Inr (transformed_data\<lparr>shapes_transform := r\<rparr>, warned)))"

section \<open>Polygons as strings\<close>












text \<open>
  \<^verbatim>\<open>eval\<close> is modelled on the strings the pattern accepts, the only ones
  \<open>string_to_tensor\<close> gives it. Such a string is a pair of brackets around rows; a row
  that follows another one without a comma is, for Python, a subscript of the row before
  it with a tuple of floats, which raises TypeError. A literal is read as the rational
  it denotes. On strings the pattern does not accept \<open>py_eval\<close> means nothing.
\<close>

fun split_on :: "char \<Rightarrow> string \<Rightarrow> string list" where
  \<comment> \<open>\<^verbatim>\<open>s.split(c)\<close>\<close>
  "split_on c [] = [[]]"
| "split_on c (x # xs) =
     (if x = c then [] # split_on c xs
      else (case split_on c xs of [] \<Rightarrow> [[x]] | y # ys \<Rightarrow> (x # y) # ys))"









section \<open>Notions used in the statements\<close>



definition placeholder :: registry where
  \<comment> \<open>the registry a new element has until the adjuster rewrites it\<close>
  "placeholder = [(DEFAULT_COORDINATE_SYSTEM, Identity)]"

definition invariant_violation :: "error \<Rightarrow> bool" where
  \<comment> \<open>the errors of a failed internal check: a failed \<^verbatim>\<open>assert\<close>, or the KeyError of
      \<^verbatim>\<open>d[DEFAULT_COORDINATE_SYSTEM]\<close>\<close>
  "invariant_violation e \<longleftrightarrow> e = AssertionError \<or> e = KeyError"

definition num_column :: "(string \<times> column) list \<Rightarrow> string \<Rightarrow> rat list" where
  "num_column cols ax = (case map_of cols ax of Some (NumCol xs) \<Rightarrow> xs | _ \<Rightarrow> [])"

definition coordinate_row :: "(string \<times> column) list \<Rightarrow> string list \<Rightarrow> nat \<Rightarrow> rat list" where
  \<comment> \<open>the coordinates of row \<open>r\<close> of a table, in the order of the axes\<close>
  "coordinate_row cols axes r = map (\<lambda>ax. num_column cols ax ! r) axes"

definition channel_count :: "string list \<Rightarrow> nat" where
  \<comment> \<open>the length of \<^verbatim>\<open>c_shape\<close>: 1 with a channel axis, 0 without\<close>
  "channel_count axes = (if ''c'' \<in> set axes then 1 else 0)"

definition spatial_shape_of :: "nat list \<Rightarrow> string list \<Rightarrow> nat list" where
  \<comment> \<open>\<^verbatim>\<open>spatial_shape = data.shape[len(data.shape) - n_spatial_dims :]\<close>\<close>
  "spatial_shape_of shape axes = drop (length shape - get_n_spatial_dims axes) shape"

definition transformed_coordinates :: "matrix \<Rightarrow> nat list \<Rightarrow> string list \<Rightarrow> nat \<Rightarrow> rat set" where
  \<comment> \<open>the coordinates that the transformed corner points have on axis \<open>i\<close>:
      column \<open>i\<close> of \<^verbatim>\<open>new_v\<close>, as a set\<close>
  "transformed_coordinates M shape axes i = (\<lambda>p. mat_vec M p ! i) ` set (corner_points shape axes)"

definition translation_matrix :: "nat \<Rightarrow> (nat \<Rightarrow> rat) \<Rightarrow> matrix" where
  \<comment> \<open>the homogeneous matrix of the translation by \<open>tv i\<close> on axis \<open>i\<close>\<close>
  "translation_matrix n tv =
     map (\<lambda>i. butlast (unit_vec (n + 1) i) @ [tv i]) [0..<n] @ [unit_vec (n + 1) n]"
















section \<open>Examples\<close>

text \<open>The inputs and results that the witnesses and counterexamples evaluate.\<close>

definition example_points :: points_table where
  \<comment> \<open>three points with a gene name each, anchored in \<^verbatim>\<open>physical\<close> by a scale of 2\<close>
  "example_points =
     \<lparr>columns = [(''x'', NumCol [0, 1, 0]), (''gene'', ObjCol [''a'', ''b'', ''c'']),
                 (''y'', NumCol [0, 0, 1])],
      points_transform = [(''physical'', Scale [2, 2] [''x'', ''y''])]\<rparr>"

definition example_points_transformed :: points_table where
  "example_points_transformed =
     \<lparr>columns = [(''gene'', ObjCol [''a'', ''b'', ''c'']), (''x'', NumCol [0, 2, 0]),
                 (''y'', NumCol [0, 0, 2])],
      points_transform = [(''global'', Identity)]\<rparr>"

definition example_circles :: shapes_frame where
  \<comment> \<open>two circles, anchored in \<^verbatim>\<open>physical\<close> by a scale of 2 along x and 3 along y\<close>
  "example_circles =
     \<lparr>geometry = [Point [1, 1], Point [2, 5]],
      shape_columns = [(''radius'', NumCol [1, 3])],
      shapes_transform = [(''physical'', Scale [2, 3] [''x'', ''y''])]\<rparr>"

definition example_circles_transformed :: shapes_frame where
  "example_circles_transformed =
     \<lparr>geometry = [Point [2, 3], Point [4, 15]],
      shape_columns = [(''radius'', NumCol [5 / 2, 15 / 2])],
      shapes_transform = [(''global'', Identity)]\<rparr>"

definition example_mixed :: shapes_frame where
  \<comment> \<open>a triangle followed by a circle, anchored in \<^verbatim>\<open>physical\<close> by a scale of 2\<close>
  "example_mixed =
     \<lparr>geometry = [Polygon [[[0, 0], [1, 0], [0, 1]]], Point [1, 1]],
      shape_columns = [(''radius'', NumCol [1, 1])],
      shapes_transform = [(''physical'', Scale [2, 2] [''x'', ''y''])]\<rparr>"

definition example_mixed_transformed :: shapes_frame where
  "example_mixed_transformed =
     \<lparr>geometry = [Polygon [[[0, 0], [2, 0], [0, 2]]], Point [2, 2]],
      shape_columns = [(''radius'', NumCol [1, 1])],
      shapes_transform = [(''global'', Identity)]\<rparr>"

definition example_get_scale :: "registry \<Rightarrow> error + transformation" where
  \<comment> \<open>every level but the first has half the resolution of the first\<close>
  "example_get_scale r = Inr (Scale [2, 2] [''y'', ''x''])"

definition example_pyramid :: multiscale where
  \<comment> \<open>two levels of 8 by 8 and 4 by 4 pixels, anchored in \<^verbatim>\<open>world\<close> by a translation of 4\<close>
  "example_pyramid =
     \<lparr>levels = [(''scale0'', [\<lparr>data_shape = [8, 8], data_dims = [''y'', ''x''], transform_attr = []\<rparr>]),
                (''scale1'', [\<lparr>data_shape = [4, 4], data_dims = [''y'', ''x''], transform_attr = []\<rparr>])],
      multiscale_schema = Image2DModel,
      multiscale_transform = [(''world'', Translation [4, 4] [''y'', ''x''])]\<rparr>"

definition example_pyramid_transformed :: transformed_multiscale where
  "example_pyramid_transformed =
     \<lparr>transformed_levels =
        [(''scale0'',
          \<lparr>resampled = \<lparr>resample_matrix = [[1, 0, 0], [0, 1, 0], [0, 0, 1]],
                         output_shape = [8, 8], resample_kwargs = [],
                         raster_translation = Sequence [Translation [0, 0] [''y'', ''x''],
                                                        Translation [4, 4] [''y'', ''x'']]\<rparr>,
           image_dims = [''y'', ''x''], image_transform = []\<rparr>),
         (''scale1'',
          \<lparr>resampled = \<lparr>resample_matrix = [[1, 0, 0], [0, 1, 0], [0, 0, 1]],
                         output_shape = [4, 4], resample_kwargs = [],
                         raster_translation = Sequence [Translation [0, 0] [''y'', ''x''],
                                                        Translation [2, 2] [''y'', ''x'']]\<rparr>,
           image_dims = [''y'', ''x''], image_transform = []\<rparr>)],
      pyramid_transform =
        [(''global'', Sequence [Translation [0, 0] [''y'', ''x''],
                                Translation [4, 4] [''y'', ''x'']])]\<rparr>"


definition example_doubled :: raster_result where
  \<comment> \<open>what \<^verbatim>\<open>_transform_raster\<close> gives for 10 by 10 pixels scaled by 2\<close>
  "example_doubled =
     \<lparr>resample_matrix = [[1 / 2, 0, 0], [0, 1 / 2, 0], [0, 0, 1]], output_shape = [20, 20],
      resample_kwargs = [],
      raster_translation = Sequence [Translation [- (1 / 2), - (1 / 2)] [''y'', ''x''],
                                     Translation [0, 0] [''y'', ''x'']]\<rparr>"


definition example_image :: data_array where
  \<comment> \<open>10 by 10 pixels, anchored in \<^verbatim>\<open>world\<close> by a translation of 5\<close>
  "example_image =
     \<lparr>data_shape = [10, 10], data_dims = [''y'', ''x''],
      transform_attr = [(''world'', Translation [5, 5] [''y'', ''x''])]\<rparr>"

definition example_image_resampled :: raster_result where
  "example_image_resampled =
     \<lparr>resample_matrix = [[1, 0, 0], [0, 1, 0], [0, 0, 1]], output_shape = [10, 10],
      resample_kwargs = [Prefilter False, Order 0],
      raster_translation = Sequence [Translation [0, 0] [''y'', ''x''],
                                     Translation [5, 5] [''y'', ''x'']]\<rparr>"

section \<open>Basic facts\<close>

lemma length_mat_vec [simp]: "length (mat_vec m v) = length m"
  by (simp add: mat_vec_def)

lemma length_mat_mul [simp]: "length (mat_mul a b) = length a"
  by (simp add: mat_mul_def)

lemma length_eye [simp]: "length (eye n) = n"
  by (simp add: eye_def)

lemma collect_Inr:
  "collect rs = Inr xs \<Longrightarrow> rs = map Inr xs"
proof (induction rs arbitrary: xs)
  case Nil
  then show ?case by simp
next
  case (Cons r rs)
  then show ?case by (cases r) (auto split: sum.splits)
qed

lemma collect_map_Inr:
  assumes "collect (map f ts) = Inr xs"
  shows "length xs = length ts \<and> (\<forall>i < length ts. f (ts ! i) = Inr (xs ! i))"
proof -
  from collect_Inr[OF assms] have eq: "map f ts = map Inr xs" .
  then have len: "length ts = length xs"
    by (metis length_map)
  moreover have "f (ts ! i) = Inr (xs ! i)" if "i < length ts" for i
    using that eq len by (metis nth_map)
  ultimately show ?thesis by simp
qed

lemma length_fold_mat_mul:
  "(\<forall>m \<in> set ms. length m = n) \<Longrightarrow> length acc = n \<Longrightarrow>
   length (fold (\<lambda>m acc. mat_mul m acc) ms acc) = n"
  by (induction ms arbitrary: acc) auto

lemma to_affine_matrix_length:
  "to_affine_matrix t axes = Inr m \<Longrightarrow> length m = length axes + 1"
proof (induction t axes arbitrary: m rule: to_affine_matrix.induct)
  case (5 ts axes)
  from "5.prems" obtain ms where c: "collect (map (\<lambda>t. to_affine_matrix t axes) ts) = Inr ms"
    and m: "m = fold (\<lambda>m acc. mat_mul m acc) ms (eye (length axes + 1))"
    by (auto split: sum.splits)
  from collect_map_Inr[OF c] have len: "length ms = length ts"
    and each: "\<And>i. i < length ts \<Longrightarrow> to_affine_matrix (ts ! i) axes = Inr (ms ! i)"
    by auto
  have "\<forall>x \<in> set ms. length x = length axes + 1"
  proof
    fix x assume "x \<in> set ms"
    then obtain i where i: "i < length ms" "x = ms ! i"
      by (auto simp: in_set_conv_nth)
    with len have "ts ! i \<in> set ts" by simp
    from "5.IH"[OF this each] i len show "length x = length axes + 1" by simp
  qed
  then show ?case unfolding m by (intro length_fold_mat_mul) simp_all
qed (auto split: if_splits)

section \<open>Facts about the corner points and about matrices\<close>

lemma length_product01: "length (product01 n) = 2 ^ n"
  by (induction n) simp_all

lemma set_product01: "set (product01 n) = {b. length b = n \<and> set b \<subseteq> {0, 1}}"
proof (induction n)
  case 0
  then show ?case by auto
next
  case (Suc n)
  show ?case
  proof (intro set_eqI iffI)
    fix b :: "nat list" assume "b \<in> set (product01 (Suc n))"
    with Suc show "b \<in> {b. length b = Suc n \<and> set b \<subseteq> {0, 1}}" by auto
  next
    fix b :: "nat list" assume "b \<in> {b. length b = Suc n \<and> set b \<subseteq> {0, 1}}"
    then obtain x r where b: "b = x # r" "length r = n" "set r \<subseteq> {0, 1}" "x = 0 \<or> x = 1"
      by (cases b) auto
    with Suc have "r \<in> set (product01 n)" by simp
    with b show "b \<in> set (product01 (Suc n))" by auto
  qed
qed

lemma product01_nonempty: "product01 n \<noteq> []"
  using length_product01[of n] by (metis length_0_conv power_not_zero zero_neq_numeral)

lemma count_channel:
  "distinct axes \<Longrightarrow> get_n_spatial_dims axes + channel_count axes = length axes"
  by (induction axes) (auto simp: get_n_spatial_dims_def channel_count_def)

lemma length_spatial_shape:
  "length shape = length axes \<Longrightarrow> length (spatial_shape_of shape axes) = get_n_spatial_dims axes"
  by (simp add: spatial_shape_of_def get_n_spatial_dims_def)

lemma corner_points_alt:
  "corner_points shape axes =
     map (\<lambda>b. replicate (channel_count axes) 0 @ map rat_of_nat (map2 (*) b (spatial_shape_of shape axes)) @ [1])
       (product01 (get_n_spatial_dims axes))"
  by (simp add: corner_points_def Let_def spatial_shape_of_def channel_count_def comp_def)


lemma corner_points_nonempty: "corner_points shape axes \<noteq> []"
  by (simp add: corner_points_alt product01_nonempty)

lemma length_corner:
  assumes "length shape = length axes" "distinct axes" "p \<in> set (corner_points shape axes)"
  shows "length p = length axes + 1"
proof -
  from assms(3) obtain b where b: "b \<in> set (product01 (get_n_spatial_dims axes))"
    and p: "p = replicate (channel_count axes) 0 @ map rat_of_nat (map2 (*) b (spatial_shape_of shape axes)) @ [1]"
    by (auto simp: corner_points_alt)
  from b have "length b = get_n_spatial_dims axes" by (simp add: set_product01)
  with length_spatial_shape[OF assms(1)] count_channel[OF assms(2)] show ?thesis
    by (simp add: p)
qed






lemma np_min_col:
  "np_min (col (map (mat_vec M) v) i) = Min ((\<lambda>p. mat_vec M p ! i) ` set v)"
  by (simp add: np_min_def col_def image_image)

lemma transform_raster_Inr:
  assumes "transform_raster shape axes t kw = Inr res"
  shows "\<exists>M ti Minv. length shape = length axes \<and> distinct axes
     \<and> to_affine_matrix t axes = Inr M
     \<and> inverse_transformation t = Inr ti
     \<and> to_affine_matrix
          (Sequence [Translation
             (map (\<lambda>i. np_min (col (map butlast (map (mat_vec M) (corner_points shape axes))) i))
                [0..<ncols (map butlast (map (mat_vec M) (corner_points shape axes)))]) axes, ti]) axes
         = Inr Minv
     \<and> 0 \<notin> set (spatial_shape_of shape axes)
     \<and> resample_matrix res = Minv
     \<and> resample_kwargs res = kw
     \<and> output_shape res =
          (if ''c'' \<in> set axes then [int (shape ! 0)] else []) @
          map (\<lambda>i. py_int (np_max (col (map (mat_vec M) (corner_points shape axes)) i)
                          - np_min (col (map (mat_vec M) (corner_points shape axes)) i)))
            [channel_count axes..<get_n_spatial_dims axes + channel_count axes]
     \<and> raster_translation res =
          Sequence [Translation
             (map (\<lambda>p. - p / 2 + 1 / 2)
                (map2 (\<lambda>a b. rat_of_int a / rat_of_nat b)
                   (map (\<lambda>i. py_int (np_max (col (map (mat_vec M) (corner_points shape axes)) i)
                          - np_min (col (map (mat_vec M) (corner_points shape axes)) i)))
                      [channel_count axes..<get_n_spatial_dims axes + channel_count axes])
                   (spatial_shape_of shape axes)))
             (if get_n_spatial_dims axes = 0 then axes
              else drop (length axes - get_n_spatial_dims axes) axes),
            Translation
             (map (\<lambda>i. np_min (col (map butlast (map (mat_vec M) (corner_points shape axes))) i))
                [0..<ncols (map butlast (map (mat_vec M) (corner_points shape axes)))]) axes]"
proof -
  from assms have wf: "length shape = length axes" "distinct axes"
    by (auto simp: transform_raster_def split: if_splits)
  from assms wf obtain M where M: "to_affine_matrix t axes = Inr M"
    by (cases "to_affine_matrix t axes") (auto simp: transform_raster_def Let_def)
  from assms wf M obtain ti where ti: "inverse_transformation t = Inr ti"
    by (cases "inverse_transformation t") (auto simp: transform_raster_def Let_def)
  let ?tr = "Translation
             (map (\<lambda>i. np_min (col (map butlast (map (mat_vec M) (corner_points shape axes))) i))
                [0..<ncols (map butlast (map (mat_vec M) (corner_points shape axes)))]) axes"
  from assms wf M ti obtain Minv where Minv: "to_affine_matrix (Sequence [?tr, ti]) axes = Inr Minv"
    by (cases "to_affine_matrix (Sequence [?tr, ti]) axes")
       (auto simp: transform_raster_def Let_def simp del: to_affine_matrix.simps)
  from assms wf M ti Minv have nz: "0 \<notin> set (spatial_shape_of shape axes)"
    by (auto simp: transform_raster_def Let_def spatial_shape_of_def
        simp del: to_affine_matrix.simps split: if_splits)
  from assms wf M ti Minv nz
  have "res = \<lparr>resample_matrix = Minv,
          output_shape = (if ''c'' \<in> set axes then [int (shape ! 0)] else []) @
          map (\<lambda>i. py_int (np_max (col (map (mat_vec M) (corner_points shape axes)) i)
                          - np_min (col (map (mat_vec M) (corner_points shape axes)) i)))
            [channel_count axes..<get_n_spatial_dims axes + channel_count axes],
          resample_kwargs = kw,
          raster_translation = Sequence [Translation
             (map (\<lambda>p. - p / 2 + 1 / 2)
                (map2 (\<lambda>a b. rat_of_int a / rat_of_nat b)
                   (map (\<lambda>i. py_int (np_max (col (map (mat_vec M) (corner_points shape axes)) i)
                          - np_min (col (map (mat_vec M) (corner_points shape axes)) i)))
                      [channel_count axes..<get_n_spatial_dims axes + channel_count axes])
                   (spatial_shape_of shape axes)))
             (if get_n_spatial_dims axes = 0 then axes
              else drop (length axes - get_n_spatial_dims axes) axes), ?tr]\<rparr>"
    by (auto simp: transform_raster_def Let_def spatial_shape_of_def channel_count_def
        simp del: to_affine_matrix.simps split: if_splits)
  with wf M ti Minv nz show ?thesis
    by (intro exI[of _ M] exI[of _ ti] exI[of _ Minv]) simp
qed

lemma ncols_new_v:
  assumes "length M = length axes + 1"
  shows "ncols (map butlast (map (mat_vec M) (corner_points shape axes))) = length axes"
proof -
  obtain p ps where "corner_points shape axes = p # ps"
    using corner_points_nonempty[of shape axes] by (cases "corner_points shape axes") auto
  with assms show ?thesis by (simp add: ncols_def)
qed

lemma col_butlast_new_v:
  assumes "length M = length axes + 1" "i < length axes"
  shows "col (map butlast (map (mat_vec M) v)) i = col (map (mat_vec M) v) i"
  using assms by (simp add: col_def nth_butlast)

lemma translation_vector_eq:
  assumes "length M = length axes + 1"
  shows "map (\<lambda>i. np_min (col (map butlast (map (mat_vec M) (corner_points shape axes))) i))
           [0..<ncols (map butlast (map (mat_vec M) (corner_points shape axes)))]
       = map (\<lambda>i. Min (transformed_coordinates M shape axes i)) [0..<length axes]"
proof -
  have n: "ncols (map butlast (map (mat_vec M) (corner_points shape axes))) = length axes"
    by (rule ncols_new_v[OF assms])
  show ?thesis
    unfolding n
  proof (rule map_cong[OF refl])
    fix i assume "i \<in> set [0..<length axes]"
    then have i: "i < length axes" by simp
    show "np_min (col (map butlast (map (mat_vec M) (corner_points shape axes))) i)
            = Min (transformed_coordinates M shape axes i)"
      unfolding col_butlast_new_v[OF assms i] np_min_col transformed_coordinates_def
      by (rule refl)
  qed
qed












lemma eye_rows: "i < n \<Longrightarrow> eye n ! i = unit_vec n i"
  by (simp add: eye_def)






















section \<open>Facts about regular expressions and rendered lists\<close>
















lemma split_on_nonempty [simp]: "split_on c xs \<noteq> []"
  by (induction xs) (auto split: list.splits)













section \<open>Properties of the resolver and of the adjuster\<close>



lemma check_placeholder_iff:
  "check_placeholder d = Inr u \<longleftrightarrow> d = [(DEFAULT_COORDINATE_SYSTEM, Identity)]"
  by (cases d; cases "tl d") (auto simp: check_placeholder_def split: option.splits if_splits)

lemmas adjust_defs =
  adjust_transformations_def to_prepend_of_def check_placeholder_def set_transformation_def
  remove_transformation_all_def DEFAULT_COORDINATE_SYSTEM_def

text \<open>
  Claim C4. With \<open>maintain_positioning = False\<close> and an explicit transformation, the
  resolution returns a result exactly when no target coordinate system is given and the
  registry is a single entry whose value equals the transformation; the result is then
  that transformation with the key of the entry as target. In every other case, in
  particular when a target coordinate system is given too or when the registry has
  another number of entries, it raises the RuntimeError that carries the ambiguity
  message.
\<close>

theorem resolve_explicit_transform:
  "(validate_target_coordinate_systems d (Some t) False to_cs = Inr r
      \<longleftrightarrow> to_cs = None \<and> (\<exists>k. d = [(k, t)] \<and> r = (t, Some k)))
   \<and> (to_cs \<noteq> None \<or> length d \<noteq> 1 \<or> (\<forall>k. d \<noteq> [(k, t)])
        \<longrightarrow> validate_target_coordinate_systems d (Some t) False to_cs = Inl RuntimeError)"
  by (cases d; cases "tl d") (auto simp: validate_target_coordinate_systems_def)

theorem resolve_explicit_transform_witness:
  "validate_target_coordinate_systems [(''global'', Scale [2, 2] [''x'', ''y''])]
       (Some (Scale [2, 2] [''x'', ''y''])) False None
     = Inr (Scale [2, 2] [''x'', ''y''], Some ''global'')
   \<and> validate_target_coordinate_systems [(''a'', Identity), (''b'', Identity)]
       (Some Identity) False (Some ''a'') = Inl RuntimeError
   \<and> validate_target_coordinate_systems [(''a'', Identity), (''b'', Identity)]
       (Some Identity) False None = Inl RuntimeError"
  using resolve_explicit_transform[of "[(''global'', Scale [2, 2] [''x'', ''y''])]"
          "Scale [2, 2] [''x'', ''y'']" None "(Scale [2, 2] [''x'', ''y''], Some ''global'')"]
        resolve_explicit_transform[of "[(''a'', Identity), (''b'', Identity)]" Identity "Some ''a''"]
        resolve_explicit_transform[of "[(''a'', Identity), (''b'', Identity)]" Identity None]
  by simp



section \<open>The placeholder registry\<close>

lemma check_placeholder_error:
  "check_placeholder d = Inl e \<Longrightarrow> invariant_violation e"
  by (auto simp: check_placeholder_def invariant_violation_def split: if_splits option.splits)

text \<open>
  Claim C7. In each of the four implementations the new element has, at the call of
  \<^verbatim>\<open>_adjust_transformations\<close>, the registry with the single entry of the default
  coordinate system, valued Identity. The adjuster returns only for such a registry; for
  any other one, once its earlier steps have passed, it stops with the error of a failed
  internal check (AssertionError, or the KeyError of the lookup of the default name).
\<close>

theorem placeholder_before_adjust:
  "(transform_image_data im trI mpI csI = Inr (img, tI) \<longrightarrow> image_transform img = placeholder)
   \<and> (transform_multiscale_data get_scale ms trM mpM csM = Inr (pyr, tM, rtM)
        \<longrightarrow> pyramid_transform pyr = placeholder)
   \<and> (transform_points_data pts axes trP mpP csP = Inr (tab, tP)
        \<longrightarrow> points_transform tab = placeholder)
   \<and> (transform_shapes_data eigen_moduli sh ndim trS mpS csS = Inr (fr, warned, tS)
        \<longrightarrow> shapes_transform fr = placeholder)
   \<and> (adjust_transformations kind d old t rt mp cs = Inr r \<longrightarrow> d = placeholder)
   \<and> (d \<noteq> placeholder \<and> \<not> (mp \<and> cs \<noteq> None) \<and> to_prepend_of kind t rt mp = Inr p
        \<longrightarrow> (\<exists>e. adjust_transformations kind d old t rt mp cs = Inl e \<and> invariant_violation e))"
proof (intro conjI impI)
  assume "transform_image_data im trI mpI csI = Inr (img, tI)"
  then show "image_transform img = placeholder"
    by (auto simp: transform_image_data_def schema_parse_def placeholder_def
        split: sum.splits prod.splits)
next
  assume "transform_multiscale_data get_scale ms trM mpM csM = Inr (pyr, tM, rtM)"
  then show "pyramid_transform pyr = placeholder"
    by (auto simp: transform_multiscale_data_def set_transformation_def placeholder_def
        split: sum.splits prod.splits if_splits)
next
  assume "transform_points_data pts axes trP mpP csP = Inr (tab, tP)"
  then show "points_transform tab = placeholder"
    by (auto simp: transform_points_data_def placeholder_def
        split: sum.splits prod.splits if_splits)
next
  assume "transform_shapes_data eigen_moduli sh ndim trS mpS csS = Inr (fr, warned, tS)"
  then show "shapes_transform fr = placeholder"
    by (auto simp: transform_shapes_data_def placeholder_def Let_def
        split: sum.splits prod.splits if_splits list.splits)
next
  assume "adjust_transformations kind d old t rt mp cs = Inr r"
  then have "check_placeholder d = Inr ()"
    by (auto simp: adjust_transformations_def split: sum.splits if_splits)
  then show "d = placeholder"
    by (simp add: check_placeholder_iff placeholder_def)
next
  assume a: "d \<noteq> placeholder \<and> \<not> (mp \<and> cs \<noteq> None) \<and> to_prepend_of kind t rt mp = Inr p"
  then have "\<not> (\<exists>u. check_placeholder d = Inr u)"
    by (simp add: check_placeholder_iff placeholder_def)
  then obtain e where e: "check_placeholder d = Inl e"
    by (cases "check_placeholder d") auto
  with a have "adjust_transformations kind d old t rt mp cs = Inl e"
    by (auto simp: adjust_transformations_def)
  with check_placeholder_error[OF e]
  show "\<exists>e. adjust_transformations kind d old t rt mp cs = Inl e \<and> invariant_violation e"
    by blast
qed

theorem placeholder_before_adjust_witness:
  "transform_image_data example_image None False (Some ''world'')
     = Inr (schema_parse example_image_resampled [''y'', ''x''], Translation [5, 5] [''y'', ''x''])
   \<and> image_transform (schema_parse example_image_resampled [''y'', ''x'']) = placeholder
   \<and> transform_multiscale_data example_get_scale example_pyramid None False (Some ''world'')
       = Inr (example_pyramid_transformed\<lparr>pyramid_transform := [(''global'', Identity)]\<rparr>,
              Translation [4, 4] [''y'', ''x''],
              Some (Sequence [Translation [0, 0] [''y'', ''x''], Translation [4, 4] [''y'', ''x'']]))
   \<and> pyramid_transform (example_pyramid_transformed\<lparr>pyramid_transform := [(''global'', Identity)]\<rparr>)
       = placeholder
   \<and> transform_points_data example_points [''x'', ''y''] None False (Some ''physical'')
       = Inr (example_points_transformed, Scale [2, 2] [''x'', ''y''])
   \<and> points_transform example_points_transformed = placeholder
   \<and> transform_shapes_data (\<lambda>m. [2, 3]) example_circles 2 None False (Some ''physical'')
       = Inr (example_circles_transformed, True, Scale [2, 3] [''x'', ''y''])
   \<and> shapes_transform example_circles_transformed = placeholder
   \<and> adjust_transformations DaskDataFrame [(''global'', Identity)] [] Identity None False None
       = Inr [(''global'', Identity)]
   \<and> [(''global'', Identity)] = placeholder
   \<and> [] \<noteq> placeholder
   \<and> to_prepend_of DaskDataFrame Identity None False = Inr Identity
   \<and> (\<exists>e. adjust_transformations DaskDataFrame [] [] Identity None False None = Inl e
          \<and> invariant_violation e)"
proof -
  let ?img = "schema_parse example_image_resampled [''y'', ''x'']"
  let ?pyr = "example_pyramid_transformed\<lparr>pyramid_transform := [(''global'', Identity)]\<rparr>"
  let ?rt = "Sequence [Translation [0, 0] [''y'', ''x''], Translation [4, 4] [''y'', ''x'']]"
  have r1: "transform_image_data example_image None False (Some ''world'')
              = Inr (?img, Translation [5, 5] [''y'', ''x''])"
    by code_simp
  have r2: "transform_multiscale_data example_get_scale example_pyramid None False (Some ''world'')
              = Inr (?pyr, Translation [4, 4] [''y'', ''x''], Some ?rt)"
    by code_simp
  have r3: "transform_points_data example_points [''x'', ''y''] None False (Some ''physical'')
              = Inr (example_points_transformed, Scale [2, 2] [''x'', ''y''])"
    by code_simp
  have r4: "transform_shapes_data (\<lambda>m. [2, 3]) example_circles 2 None False (Some ''physical'')
              = Inr (example_circles_transformed, True, Scale [2, 3] [''x'', ''y''])"
    by code_simp
  have r5: "adjust_transformations DaskDataFrame [(''global'', Identity)] [] Identity None False None
              = Inr [(''global'', Identity)]"
    by (simp add: adjust_defs)
  have r6: "([] :: registry) \<noteq> placeholder" "\<not> (False \<and> (None :: string option) \<noteq> None)"
    "to_prepend_of DaskDataFrame Identity None False = Inr Identity"
    by (simp_all add: placeholder_def to_prepend_of_def)
  note inst =
    placeholder_before_adjust[where im = example_image
      and trI = None and mpI = False and csI = "Some ''world''" and img = ?img
      and tI = "Translation [5, 5] [''y'', ''x'']"
      and get_scale = example_get_scale and ms = example_pyramid
      and trM = None and mpM = False and csM = "Some ''world''" and pyr = ?pyr
      and tM = "Translation [4, 4] [''y'', ''x'']" and rtM = "Some ?rt"
      and pts = example_points
      and axes = "[''x'', ''y'']" and trP = None and mpP = False and csP = "Some ''physical''"
      and tab = example_points_transformed and tP = "Scale [2, 2] [''x'', ''y'']"
      and eigen_moduli = "\<lambda>m. [2, 3]" and sh = example_circles
      and ndim = 2 and trS = None and mpS = False and csS = "Some ''physical''"
      and fr = example_circles_transformed and warned = True and tS = "Scale [2, 3] [''x'', ''y'']"
      and kind = DaskDataFrame and old = "[]" and t = Identity and rt = None and mp = False
      and cs = None and r = "[(''global'', Identity)]" and p = Identity]
  note good = inst[where d = "[(''global'', Identity)]"]
  note bad = inst[where d = "[]"]
  from good r1 have a1: "image_transform ?img = placeholder" by blast
  from good r2 have a2: "pyramid_transform ?pyr = placeholder" by blast
  from good r3 have a3: "points_transform example_points_transformed = placeholder" by blast
  from good r4 have a4: "shapes_transform example_circles_transformed = placeholder" by blast
  from good r5 have a5: "[(''global'', Identity)] = placeholder" by blast
  from bad r6 have b: "\<exists>e. adjust_transformations DaskDataFrame [] [] Identity None False None = Inl e
          \<and> invariant_violation e"
    by blast
  from r1 a1 r2 a2 r3 a3 r4 a4 r5 a5 r6(1) r6(3) b show ?thesis
    by (intro conjI)
qed

section \<open>The table of points\<close>

lemma coordinate_arrays_Inr:
  "coordinate_arrays cols axes = Inr arrays \<Longrightarrow>
   arrays = map (num_column cols) axes \<and> set axes \<subseteq> fst ` set cols"
proof (induction axes arbitrary: arrays)
  case Nil
  then show ?case by simp
next
  case (Cons ax axes)
  then show ?case
    by (auto simp: num_column_def split: option.splits column.splits sum.splits
          dest: map_of_SomeD intro: rev_image_eqI)
qed

lemma map_of_fold_update:
  "map_of (fold (\<lambda>ax acc. AList.update ax (f ax) acc) axes cols) name
     = (if name \<in> set axes then Some (f name) else map_of cols name)"
  by (induction axes arbitrary: cols) (auto simp: update_conv')

lemma keys_fold_update:
  "fst ` set (fold (\<lambda>ax acc. AList.update ax (f ax) acc) axes cols) = set axes \<union> fst ` set cols"
  by (induction axes arbitrary: cols) (auto simp: dom_update)

lemma map_of_drop_columns:
  "map_of (drop_columns axes cols) name = (if name \<in> set axes then None else map_of cols name)"
  by (induction cols) (auto simp: drop_columns_def)

lemma keys_drop_columns:
  "fst ` set (drop_columns axes cols) = fst ` set cols - set axes"
  by (auto simp: drop_columns_def intro: rev_image_eqI)

lemma index_of_nth:
  "distinct axes \<Longrightarrow> j < length axes \<Longrightarrow> index_of axes (axes ! j) = j"
proof (induction axes arbitrary: j)
  case Nil
  then show ?case by simp
next
  case (Cons a axes)
  then show ?case by (cases j) (auto simp: index_of_def)
qed

text \<open>
  Claim C9. When the transformation of a table of points returns, with \<open>M\<close> the matrix
  of the resolved transformation over the axes: the column of axis \<open>j\<close> holds, for each
  row, entry \<open>j\<close> of \<open>M\<close> times the homogeneous coordinates of that row; every column
  that is not an axis is the column of the input; and the table has the same column
  names as before.
\<close>

theorem transform_points_columns:
  assumes "transform_points data axes tr mp cs = Inr out"
  shows "\<exists>t target M.
           validate_target_coordinate_systems (points_transform data) tr mp cs = Inr (t, target)
         \<and> to_affine_matrix t axes = Inr M
         \<and> (\<forall>j < length axes.
              map_of (columns out) (axes ! j)
                = Some (NumCol (map (\<lambda>r. mat_vec M (coordinate_row (columns data) axes r @ [1]) ! j)
                                  [0..<nrows (columns data)])))
         \<and> (\<forall>name. name \<notin> set axes \<longrightarrow> map_of (columns out) name = map_of (columns data) name)
         \<and> fst ` set (columns out) = fst ` set (columns data)"
proof -
  from assms obtain transformed t where
    pre: "transform_points_data data axes tr mp cs = Inr (transformed, t)"
    and cols: "columns out = columns transformed"
    by (auto simp: transform_points_def split: sum.splits prod.splits)
  from pre obtain target arrays M where
    v: "validate_target_coordinate_systems (points_transform data) tr mp cs = Inr (t, target)"
    and dist: "distinct axes"
    and arr: "coordinate_arrays (columns data) axes = Inr arrays"
    and M: "to_affine_matrix t axes = Inr M"
    and tc: "columns transformed =
        assign_columns axes
          (map (\<lambda>row. butlast (mat_vec M (row @ [1])))
             (concatenate_columns (nrows (columns data)) arrays))
          (drop_columns axes (columns data))"
    by (auto simp: transform_points_data_def transform_coordinates_def
        split: sum.splits prod.splits if_splits)
  from coordinate_arrays_Inr[OF arr]
  have arrays: "arrays = map (num_column (columns data)) axes"
    and sub: "set axes \<subseteq> fst ` set (columns data)" by auto
  have rows: "concatenate_columns (nrows (columns data)) arrays
      = map (coordinate_row (columns data) axes) [0..<nrows (columns data)]"
    by (simp add: concatenate_columns_def coordinate_row_def arrays)
  have lenM: "length M = length axes + 1"
    by (rule to_affine_matrix_length[OF M])
  have coord: "map_of (columns out) (axes ! j)
      = Some (NumCol (map (\<lambda>r. mat_vec M (coordinate_row (columns data) axes r @ [1]) ! j)
                        [0..<nrows (columns data)]))" if j: "j < length axes" for j
  proof -
    have "map_of (columns out) (axes ! j)
        = Some (NumCol (col (map (\<lambda>row. butlast (mat_vec M (row @ [1])))
             (concatenate_columns (nrows (columns data)) arrays)) j))"
      using j dist by (simp add: cols tc assign_columns_def map_of_fold_update index_of_nth)
    also have "col (map (\<lambda>row. butlast (mat_vec M (row @ [1])))
             (concatenate_columns (nrows (columns data)) arrays)) j
       = map (\<lambda>r. mat_vec M (coordinate_row (columns data) axes r @ [1]) ! j)
            [0..<nrows (columns data)]"
      using j lenM by (simp add: col_def rows nth_butlast)
    finally show ?thesis .
  qed
  have frame: "map_of (columns out) name = map_of (columns data) name" if "name \<notin> set axes" for name
    using that by (simp add: cols tc assign_columns_def map_of_fold_update map_of_drop_columns)
  have keys: "fst ` set (columns out) = fst ` set (columns data)"
    using sub by (auto simp: cols tc assign_columns_def keys_fold_update keys_drop_columns)
  from v M coord frame keys show ?thesis by blast
qed

theorem transform_points_columns_witness:
  "transform_points example_points [''x'', ''y''] None False (Some ''physical'') = Inr example_points_transformed
   \<and> (\<exists>t target M.
           validate_target_coordinate_systems (points_transform example_points) None False (Some ''physical'') = Inr (t, target)
         \<and> to_affine_matrix t [''x'', ''y''] = Inr M
         \<and> (\<forall>j < length [''x'', ''y''].
              map_of (columns example_points_transformed) ([''x'', ''y''] ! j)
                = Some (NumCol (map (\<lambda>r. mat_vec M (coordinate_row (columns example_points) [''x'', ''y''] r @ [1]) ! j)
                                  [0..<nrows (columns example_points)])))
         \<and> (\<forall>name. name \<notin> set [''x'', ''y''] \<longrightarrow> map_of (columns example_points_transformed) name = map_of (columns example_points) name)
         \<and> fst ` set (columns example_points_transformed) = fst ` set (columns example_points))"
proof -
  have run: "transform_points example_points [''x'', ''y''] None False (Some ''physical'') = Inr example_points_transformed"
    by code_simp
  show ?thesis
    by (rule conjI[OF run transform_points_columns[OF run]])
qed

section \<open>The radius of circles\<close>

lemma is_Point_affine_geometry [simp]: "is_Point (affine_geometry m g) = is_Point g"
  by (cases g) simp_all

lemma scale_radius_Inr:
  assumes "scale_radius modules cols = Inr (cols', warned)"
  shows "\<exists>m0 ms old. modules = m0 # ms \<and> map_of cols ''radius'' = Some (NumCol old)
          \<and> warned = (\<not> allclose modules m0)
          \<and> map_of cols' ''radius''
              = Some (NumCol (map (\<lambda>r. r * (if allclose modules m0 then m0 else np_mean modules)) old))
          \<and> (\<forall>name. name \<noteq> ''radius'' \<longrightarrow> map_of cols' name = map_of cols name)"
proof (cases modules)
  case Nil
  with assms show ?thesis by (simp add: scale_radius_def)
next
  case (Cons m0 ms)
  show ?thesis
  proof (cases "map_of cols ''radius''")
    case None
    with assms Cons show ?thesis by (simp add: scale_radius_def Let_def)
  next
    case (Some c)
    show ?thesis
    proof (cases c)
      case (ObjCol xs)
      with assms Cons Some show ?thesis by (simp add: scale_radius_def Let_def)
    next
      case (NumCol old)
      from assms Cons Some NumCol
      have c': "cols' = AList.update ''radius''
                 (NumCol (map (\<lambda>r. r * (if allclose modules m0 then m0 else np_mean modules)) old)) cols"
        and w: "warned = (\<not> allclose modules m0)"
        by (auto simp: scale_radius_def Let_def)
      show ?thesis
        unfolding c' w using Cons Some NumCol
        by (intro exI[of _ m0] exI[of _ ms] exI[of _ old]) (simp add: update_conv')
    qed
  qed
qed

lemma transform_shapes_data_Inr:
  assumes "transform_shapes_data eigen_moduli data ndim tr mp cs = Inr (transformed, warned, t)"
  shows "\<exists>target M g0 rest.
           validate_target_coordinate_systems (shapes_transform data) tr mp cs = Inr (t, target)
         \<and> to_affine_matrix t (take ndim [''x'', ''y'', ''z'']) = Inr M
         \<and> geometry data = g0 # rest
         \<and> (if is_Point g0 \<and> ''radius'' \<in> fst ` set (shape_columns data)
            then scale_radius (eigen_moduli (map butlast (butlast M))) (shape_columns data)
                   = Inr (shape_columns transformed, warned)
            else \<not> warned \<and> shape_columns transformed = shape_columns data)"
proof (cases "validate_target_coordinate_systems (shapes_transform data) tr mp cs")
  case (Inl e)
  with assms show ?thesis by (simp add: transform_shapes_data_def)
next
  case (Inr p)
  obtain t' target where p: "p = (t', target)" by (cases p)
  show ?thesis
  proof (cases "to_affine_matrix t' (take ndim [''x'', ''y'', ''z''])")
    case (Inl e)
    with assms Inr p show ?thesis by (simp add: transform_shapes_data_def)
  next
    case M: (Inr M)
    show ?thesis
    proof (cases "geometry data")
      case Nil
      with assms Inr p M show ?thesis by (simp add: transform_shapes_data_def)
    next
      case (Cons g0 rest)
      have pt: "is_Point (affine_geometry M g0) = is_Point g0" by (cases g0) simp_all
      from assms Inr p M Cons pt
      have "t' = t \<and> (if is_Point g0 \<and> ''radius'' \<in> fst ` set (shape_columns data)
            then scale_radius (eigen_moduli (map butlast (butlast M))) (shape_columns data)
                   = Inr (shape_columns transformed, warned)
            else \<not> warned \<and> shape_columns transformed = shape_columns data)"
        by (simp add: transform_shapes_data_def Let_def split: if_splits sum.splits prod.splits) auto
      with Inr p M Cons show ?thesis
        by (intro exI[of _ target] exI[of _ M] exI[of _ g0] exI[of _ rest]) simp
    qed
  qed
qed

text \<open>
  Claim C8, as the code has it. The radius is rescaled when the first geometry of the
  frame is a point and the frame has a column \<^verbatim>\<open>radius\<close>, and only then. In that case,
  with \<open>m0\<close> the first of the absolute values of the eigenvalues of the linear block: if
  all of them are close to \<open>m0\<close> (\<^verbatim>\<open>np.allclose\<close>), every radius is multiplied by \<open>m0\<close>
  and no warning is logged; otherwise the warning is logged and every radius is
  multiplied by their mean. In the other case the columns are unchanged and nothing is
  logged.
\<close>

theorem radius_scaling:
  assumes "transform_shapes eigen_moduli data ndim tr mp cs = Inr (out, warned)"
  shows "\<exists>t target M g0 rest.
           validate_target_coordinate_systems (shapes_transform data) tr mp cs = Inr (t, target)
         \<and> to_affine_matrix t (take ndim [''x'', ''y'', ''z'']) = Inr M
         \<and> geometry data = g0 # rest
         \<and> (is_Point g0 \<and> ''radius'' \<in> fst ` set (shape_columns data) \<longrightarrow>
              (\<exists>m0 ms old.
                  eigen_moduli (map butlast (butlast M)) = m0 # ms
                \<and> map_of (shape_columns data) ''radius'' = Some (NumCol old)
                \<and> (allclose (m0 # ms) m0 \<longrightarrow>
                      \<not> warned
                    \<and> map_of (shape_columns out) ''radius'' = Some (NumCol (map (\<lambda>r. r * m0) old)))
                \<and> (\<not> allclose (m0 # ms) m0 \<longrightarrow>
                      warned
                    \<and> map_of (shape_columns out) ''radius''
                        = Some (NumCol (map (\<lambda>r. r * np_mean (m0 # ms)) old)))))
         \<and> (\<not> (is_Point g0 \<and> ''radius'' \<in> fst ` set (shape_columns data)) \<longrightarrow>
              \<not> warned \<and> shape_columns out = shape_columns data)"
proof -
  from assms obtain transformed t where
    pre: "transform_shapes_data eigen_moduli data ndim tr mp cs = Inr (transformed, warned, t)"
    and cols: "shape_columns out = shape_columns transformed"
    by (auto simp: transform_shapes_def split: sum.splits prod.splits)
  from transform_shapes_data_Inr[OF pre] obtain target M g0 rest where
    v: "validate_target_coordinate_systems (shapes_transform data) tr mp cs = Inr (t, target)"
    and M: "to_affine_matrix t (take ndim [''x'', ''y'', ''z'']) = Inr M"
    and g: "geometry data = g0 # rest"
    and body: "if is_Point g0 \<and> ''radius'' \<in> fst ` set (shape_columns data)
            then scale_radius (eigen_moduli (map butlast (butlast M))) (shape_columns data)
                   = Inr (shape_columns transformed, warned)
            else \<not> warned \<and> shape_columns transformed = shape_columns data"
    by blast
  have A: "\<exists>m0 ms old.
                  eigen_moduli (map butlast (butlast M)) = m0 # ms
                \<and> map_of (shape_columns data) ''radius'' = Some (NumCol old)
                \<and> (allclose (m0 # ms) m0 \<longrightarrow>
                      \<not> warned
                    \<and> map_of (shape_columns out) ''radius'' = Some (NumCol (map (\<lambda>r. r * m0) old)))
                \<and> (\<not> allclose (m0 # ms) m0 \<longrightarrow>
                      warned
                    \<and> map_of (shape_columns out) ''radius''
                        = Some (NumCol (map (\<lambda>r. r * np_mean (m0 # ms)) old)))"
    if "is_Point g0 \<and> ''radius'' \<in> fst ` set (shape_columns data)"
  proof -
    from body that
    have "scale_radius (eigen_moduli (map butlast (butlast M))) (shape_columns data)
                   = Inr (shape_columns transformed, warned)" by simp
    from scale_radius_Inr[OF this] obtain m0 ms old where
      e: "eigen_moduli (map butlast (butlast M)) = m0 # ms"
      and o: "map_of (shape_columns data) ''radius'' = Some (NumCol old)"
      and w: "warned = (\<not> allclose (eigen_moduli (map butlast (butlast M))) m0)"
      and r: "map_of (shape_columns transformed) ''radius''
              = Some (NumCol (map (\<lambda>r. r * (if allclose (eigen_moduli (map butlast (butlast M))) m0
                                               then m0
                                               else np_mean (eigen_moduli (map butlast (butlast M))))) old))"
      by blast
    show ?thesis
    proof (cases "allclose (m0 # ms) m0")
      case True
      with e o w r show ?thesis
        by (intro exI[of _ m0] exI[of _ ms] exI[of _ old]) (simp add: cols)
    next
      case False
      with e o w r show ?thesis
        by (intro exI[of _ m0] exI[of _ ms] exI[of _ old]) (simp add: cols)
    qed
  qed
  have B: "\<not> warned \<and> shape_columns out = shape_columns data"
    if "\<not> (is_Point g0 \<and> ''radius'' \<in> fst ` set (shape_columns data))"
    using body that unfolding cols by simp
  show ?thesis
  proof (intro exI[of _ t] exI[of _ target] exI[of _ M] exI[of _ g0] exI[of _ rest] conjI)
    show "is_Point g0 \<and> ''radius'' \<in> fst ` set (shape_columns data) \<longrightarrow>
              (\<exists>m0 ms old.
                  eigen_moduli (map butlast (butlast M)) = m0 # ms
                \<and> map_of (shape_columns data) ''radius'' = Some (NumCol old)
                \<and> (allclose (m0 # ms) m0 \<longrightarrow>
                      \<not> warned
                    \<and> map_of (shape_columns out) ''radius'' = Some (NumCol (map (\<lambda>r. r * m0) old)))
                \<and> (\<not> allclose (m0 # ms) m0 \<longrightarrow>
                      warned
                    \<and> map_of (shape_columns out) ''radius''
                        = Some (NumCol (map (\<lambda>r. r * np_mean (m0 # ms)) old))))"
      using A by (rule impI)
    show "\<not> (is_Point g0 \<and> ''radius'' \<in> fst ` set (shape_columns data)) \<longrightarrow>
              \<not> warned \<and> shape_columns out = shape_columns data"
      using B by (rule impI)
  qed (rule v M g)+
qed


theorem radius_scaling_witness:
  "transform_shapes (\<lambda>m. [2, 3]) example_circles 2 None False (Some ''physical'') = Inr (example_circles_transformed, True)
   \<and> (\<exists>t target M g0 rest.
           validate_target_coordinate_systems (shapes_transform example_circles) None False (Some ''physical'') = Inr (t, target)
         \<and> to_affine_matrix t (take 2 [''x'', ''y'', ''z'']) = Inr M
         \<and> geometry example_circles = g0 # rest
         \<and> (is_Point g0 \<and> ''radius'' \<in> fst ` set (shape_columns example_circles) \<longrightarrow>
              (\<exists>m0 ms old.
                  (\<lambda>m. [2, 3]) (map butlast (butlast M)) = m0 # ms
                \<and> map_of (shape_columns example_circles) ''radius'' = Some (NumCol old)
                \<and> (allclose (m0 # ms) m0 \<longrightarrow>
                      \<not> True
                    \<and> map_of (shape_columns example_circles_transformed) ''radius'' = Some (NumCol (map (\<lambda>r. r * m0) old)))
                \<and> (\<not> allclose (m0 # ms) m0 \<longrightarrow>
                      True
                    \<and> map_of (shape_columns example_circles_transformed) ''radius''
                        = Some (NumCol (map (\<lambda>r. r * np_mean (m0 # ms)) old)))))
         \<and> (\<not> (is_Point g0 \<and> ''radius'' \<in> fst ` set (shape_columns example_circles)) \<longrightarrow>
              \<not> True \<and> shape_columns example_circles_transformed = shape_columns example_circles))"
proof -
  have run: "transform_shapes (\<lambda>m. [2, 3]) example_circles 2 None False (Some ''physical'') = Inr (example_circles_transformed, True)"
    by code_simp
  show ?thesis
    by (rule conjI[OF run radius_scaling[OF run]])
qed

text \<open>
  The claim as stated fails for a frame whose first geometry is a polygon and whose second
  is a point with a radius: the transformation scales by 2 in both axes, both eigenvalues
  are 2, and the radii stay what they were.
\<close>

theorem radius_scaling_counterexample:
  "transform_shapes (\<lambda>m. [2, 2]) example_mixed 2 None False (Some ''physical'')
     = Inr (example_mixed_transformed, False)
   \<and> geometry example_mixed = [Polygon [[[0, 0], [1, 0], [0, 1]]], Point [1, 1]]
   \<and> is_Point (Point [1, 1])
   \<and> shape_columns example_mixed = [(''radius'', NumCol [1, 1])]
   \<and> to_affine_matrix (Scale [2, 2] [''x'', ''y'']) [''x'', ''y'']
       = Inr [[2, 0, 0], [0, 2, 0], [0, 0, 1]]
   \<and> allclose [2, 2] 2
   \<and> shape_columns example_mixed_transformed = [(''radius'', NumCol [1, 1])]
   \<and> map (\<lambda>r. r * 2) [1, 1] \<noteq> [1, 1 :: rat]"
  by code_simp

section \<open>The levels of a pyramid\<close>

lemma transform_levels_Inr:
  assumes "transform_levels get_scale t kwargs lv rt0 = Inr (out, rt)"
  shows "length out = length lv
       \<and> (\<forall>i < length lv. \<exists>xdata composed.
             snd (lv ! i) = [xdata] \<and> fst (out ! i) = fst (lv ! i)
           \<and> composed_for get_scale (fst (lv ! i)) xdata t = Inr composed
           \<and> transform_raster (data_shape xdata) (data_dims xdata) composed kwargs
               = Inr (resampled (snd (out ! i))))"
  using assms
proof (induction lv arbitrary: rt0 out rt)
  case Nil
  then show ?case by simp
next
  case (Cons p lv)
  obtain k v where p: "p = (k, v)" by (cases p)
  from Cons.prems obtain xdata composed r out' where
    v: "v = [xdata]"
    and c: "composed_for get_scale k xdata t = Inr composed"
    and r: "transform_raster (data_shape xdata) (data_dims xdata) composed kwargs = Inr r"
    and rest: "transform_levels get_scale t kwargs lv
                 (case rt0 of None \<Rightarrow> Some (raster_translation r) | Some x \<Rightarrow> Some x) = Inr (out', rt)"
    and out: "out = (k, \<lparr>resampled = r, image_dims = data_dims xdata, image_transform = []\<rparr>) # out'"
    by (auto simp: p split: list.splits sum.splits prod.splits)
  from Cons.IH[OF rest] have IH: "length out' = length lv"
    "\<And>i. i < length lv \<Longrightarrow> \<exists>xdata composed.
             snd (lv ! i) = [xdata] \<and> fst (out' ! i) = fst (lv ! i)
           \<and> composed_for get_scale (fst (lv ! i)) xdata t = Inr composed
           \<and> transform_raster (data_shape xdata) (data_dims xdata) composed kwargs
               = Inr (resampled (snd (out' ! i)))"
    by auto
  show ?case
  proof (intro conjI allI impI)
    show "length out = length (p # lv)" using IH(1) out by simp
  next
    fix i assume "i < length (p # lv)"
    then show "\<exists>xdata composed.
             snd ((p # lv) ! i) = [xdata] \<and> fst (out ! i) = fst ((p # lv) ! i)
           \<and> composed_for get_scale (fst ((p # lv) ! i)) xdata t = Inr composed
           \<and> transform_raster (data_shape xdata) (data_dims xdata) composed kwargs
               = Inr (resampled (snd (out ! i)))"
      using IH(2) v c r out p by (cases i) auto
  qed
qed

lemma composed_for_cases:
  "composed_for get_scale k xdata t = Inr composed \<Longrightarrow>
     (k = ''scale0'' \<longrightarrow> composed = t)
   \<and> (k \<noteq> ''scale0'' \<longrightarrow>
        (\<exists>S Si. get_scale (transform_attr xdata) = Inr S \<and> inverse_transformation S = Inr Si
               \<and> composed = Sequence [S, t, Si]))"
  by (auto simp: composed_for_def split: if_splits sum.splits)

lemma sequence_of_three_matrix:
  assumes "to_affine_matrix a axes = Inr Ma" "to_affine_matrix b axes = Inr Mb"
    "to_affine_matrix c axes = Inr Mc"
  shows "to_affine_matrix (Sequence [a, b, c]) axes
           = Inr (mat_mul Mc (mat_mul Mb (mat_mul Ma (eye (length axes + 1)))))"
  using assms by simp

text \<open>
  Claim C6. When the transformation of a pyramid returns, it has one transformed level
  for each level of the input, under the same key. The level \<^verbatim>\<open>scale0\<close> is the result of
  \<^verbatim>\<open>_transform_raster\<close> for the resolved transformation \<open>t\<close> itself. Every other level
  is its result for \<open>Sequence [S, t, inverse of S]\<close>, where \<open>S\<close> is what \<^verbatim>\<open>_get_scale\<close>
  gives for the registry of that level: the composition that applies \<open>S\<close> first, then
  \<open>t\<close>, then the inverse of \<open>S\<close> (\<open>compose(a, b)\<close> applies \<open>a\<close> then \<open>b\<close>), whose matrix
  is given by \<open>sequence_of_three_matrix\<close>.
\<close>

theorem multiscale_level_transformations:
  assumes "transform_multiscale get_scale data tr mp cs = Inr out"
  shows "\<exists>t target kw.
           validate_target_coordinate_systems (multiscale_transform data) tr mp cs = Inr (t, target)
         \<and> kw = (if multiscale_schema data \<in> {Labels2DModel, Labels3DModel}
                 then [Prefilter False] else [])
         \<and> length (transformed_levels out) = length (levels data)
         \<and> (\<forall>i < length (levels data). \<exists>xdata.
               snd (levels data ! i) = [xdata]
             \<and> fst (transformed_levels out ! i) = fst (levels data ! i)
             \<and> (fst (levels data ! i) = ''scale0'' \<longrightarrow>
                  transform_raster (data_shape xdata) (data_dims xdata) t kw
                    = Inr (resampled (snd (transformed_levels out ! i))))
             \<and> (fst (levels data ! i) \<noteq> ''scale0'' \<longrightarrow>
                  (\<exists>S Si. get_scale (transform_attr xdata) = Inr S
                      \<and> inverse_transformation S = Inr Si
                      \<and> transform_raster (data_shape xdata) (data_dims xdata) (Sequence [S, t, Si]) kw
                          = Inr (resampled (snd (transformed_levels out ! i))))))"
proof -
  from assms obtain transformed t rt where
    pre: "transform_multiscale_data get_scale data tr mp cs = Inr (transformed, t, rt)"
    and lv: "transformed_levels out = transformed_levels transformed"
    by (auto simp: transform_multiscale_def split: sum.splits prod.splits)
  define kw where "kw = (if multiscale_schema data \<in> {Labels2DModel, Labels3DModel}
                 then [Prefilter False] else [])"
  from pre obtain target where
    v: "validate_target_coordinate_systems (multiscale_transform data) tr mp cs = Inr (t, target)"
    and tl: "transform_levels get_scale t kw (levels data) None
               = Inr (transformed_levels transformed, rt)"
    unfolding kw_def
    by (auto simp: transform_multiscale_data_def split: sum.splits prod.splits if_splits)
  note L = transform_levels_Inr[OF tl]
  have each: "\<exists>xdata.
               snd (levels data ! i) = [xdata]
             \<and> fst (transformed_levels out ! i) = fst (levels data ! i)
             \<and> (fst (levels data ! i) = ''scale0'' \<longrightarrow>
                  transform_raster (data_shape xdata) (data_dims xdata) t kw
                    = Inr (resampled (snd (transformed_levels out ! i))))
             \<and> (fst (levels data ! i) \<noteq> ''scale0'' \<longrightarrow>
                  (\<exists>S Si. get_scale (transform_attr xdata) = Inr S
                      \<and> inverse_transformation S = Inr Si
                      \<and> transform_raster (data_shape xdata) (data_dims xdata) (Sequence [S, t, Si]) kw
                          = Inr (resampled (snd (transformed_levels out ! i)))))"
    if i: "i < length (levels data)" for i
  proof -
    from L i obtain xdata composed where
      x: "snd (levels data ! i) = [xdata]"
      and k: "fst (transformed_levels transformed ! i) = fst (levels data ! i)"
      and c: "composed_for get_scale (fst (levels data ! i)) xdata t = Inr composed"
      and r: "transform_raster (data_shape xdata) (data_dims xdata) composed kw
               = Inr (resampled (snd (transformed_levels transformed ! i)))"
      by blast
    from composed_for_cases[OF c] x k r show ?thesis
      unfolding lv by (intro exI[of _ xdata]) auto
  qed
  show ?thesis
  proof (intro exI[of _ t] exI[of _ target] exI[of _ kw] conjI)
    show "validate_target_coordinate_systems (multiscale_transform data) tr mp cs = Inr (t, target)"
      by (rule v)
    show "kw = (if multiscale_schema data \<in> {Labels2DModel, Labels3DModel}
                 then [Prefilter False] else [])"
      by (rule kw_def)
    show "length (transformed_levels out) = length (levels data)"
      using L unfolding lv by simp
    show "\<forall>i < length (levels data). \<exists>xdata.
               snd (levels data ! i) = [xdata]
             \<and> fst (transformed_levels out ! i) = fst (levels data ! i)
             \<and> (fst (levels data ! i) = ''scale0'' \<longrightarrow>
                  transform_raster (data_shape xdata) (data_dims xdata) t kw
                    = Inr (resampled (snd (transformed_levels out ! i))))
             \<and> (fst (levels data ! i) \<noteq> ''scale0'' \<longrightarrow>
                  (\<exists>S Si. get_scale (transform_attr xdata) = Inr S
                      \<and> inverse_transformation S = Inr Si
                      \<and> transform_raster (data_shape xdata) (data_dims xdata) (Sequence [S, t, Si]) kw
                          = Inr (resampled (snd (transformed_levels out ! i)))))"
      using each by blast
  qed
qed

theorem multiscale_level_transformations_witness:
  "transform_multiscale example_get_scale example_pyramid None False (Some ''world'') = Inr example_pyramid_transformed
   \<and> (\<exists>t target kw.
           validate_target_coordinate_systems (multiscale_transform example_pyramid) None False (Some ''world'') = Inr (t, target)
         \<and> kw = (if multiscale_schema example_pyramid \<in> {Labels2DModel, Labels3DModel}
                 then [Prefilter False] else [])
         \<and> length (transformed_levels example_pyramid_transformed) = length (levels example_pyramid)
         \<and> (\<forall>i < length (levels example_pyramid). \<exists>xdata.
               snd (levels example_pyramid ! i) = [xdata]
             \<and> fst (transformed_levels example_pyramid_transformed ! i) = fst (levels example_pyramid ! i)
             \<and> (fst (levels example_pyramid ! i) = ''scale0'' \<longrightarrow>
                  transform_raster (data_shape xdata) (data_dims xdata) t kw
                    = Inr (resampled (snd (transformed_levels example_pyramid_transformed ! i))))
             \<and> (fst (levels example_pyramid ! i) \<noteq> ''scale0'' \<longrightarrow>
                  (\<exists>S Si. example_get_scale (transform_attr xdata) = Inr S
                      \<and> inverse_transformation S = Inr Si
                      \<and> transform_raster (data_shape xdata) (data_dims xdata) (Sequence [S, t, Si]) kw
                          = Inr (resampled (snd (transformed_levels example_pyramid_transformed ! i)))))))"
proof -
  have run: "transform_multiscale example_get_scale example_pyramid None False (Some ''world'') = Inr example_pyramid_transformed"
    by code_simp
  show ?thesis
    by (rule conjI[OF run multiscale_level_transformations[OF run]])
qed

section \<open>The shape of a transformed raster\<close>




section \<open>The matrix given to the resampling\<close>

text \<open>
  Claim C2, as the code has it. When \<^verbatim>\<open>_transform_raster\<close> returns, the matrix it has
  passed to \<^verbatim>\<open>affine_transform\<close> is the matrix of
  \<open>Sequence [translation, inverse of the transformation]\<close> itself, not the inverse of that
  matrix; \<open>translation\<close> is the Translation by the minimum, on each axis, of the
  coordinates of the transformed corner points. That matrix takes an output pixel to its
  place in the input.
\<close>

theorem resample_matrix_backward:
  assumes "transform_raster shape axes t kw = Inr res"
  shows "\<exists>M ti. to_affine_matrix t axes = Inr M
     \<and> inverse_transformation t = Inr ti
     \<and> to_affine_matrix
          (Sequence [Translation
                       (map (\<lambda>i. Min (transformed_coordinates M shape axes i)) [0..<length axes]) axes,
                     ti]) axes
         = Inr (resample_matrix res)"
proof -
  from transform_raster_Inr[OF assms] obtain M ti where
    M: "to_affine_matrix t axes = Inr M"
    and ti: "inverse_transformation t = Inr ti"
    and R: "to_affine_matrix
          (Sequence [Translation
             (map (\<lambda>i. np_min (col (map butlast (map (mat_vec M) (corner_points shape axes))) i))
                [0..<ncols (map butlast (map (mat_vec M) (corner_points shape axes)))]) axes, ti]) axes
         = Inr (resample_matrix res)"
    by blast
  from R have "to_affine_matrix
          (Sequence [Translation
                       (map (\<lambda>i. Min (transformed_coordinates M shape axes i)) [0..<length axes]) axes,
                     ti]) axes
         = Inr (resample_matrix res)"
    by (simp only: translation_vector_eq[OF to_affine_matrix_length[OF M]])
  with M ti show ?thesis by blast
qed

theorem resample_matrix_backward_witness:
  "transform_raster [10, 10] [''y'', ''x''] (Scale [2, 2] [''y'', ''x'']) [] = Inr example_doubled
   \<and> (\<exists>M ti. to_affine_matrix (Scale [2, 2] [''y'', ''x'']) [''y'', ''x''] = Inr M
     \<and> inverse_transformation (Scale [2, 2] [''y'', ''x'']) = Inr ti
     \<and> to_affine_matrix
          (Sequence [Translation
                       (map (\<lambda>i. Min (transformed_coordinates M [10, 10] [''y'', ''x''] i)) [0..<length [''y'', ''x'']]) [''y'', ''x''],
                     ti]) [''y'', ''x'']
         = Inr (resample_matrix example_doubled))"
proof -
  have run: "transform_raster [10, 10] [''y'', ''x''] (Scale [2, 2] [''y'', ''x'']) [] = Inr example_doubled"
    by code_simp
  show ?thesis
    by (rule conjI[OF run resample_matrix_backward[OF run]])
qed

text \<open>
  The claim as stated fails for a raster of 10 by 10 pixels scaled by 2: the minimum of
  the transformed corners is 0 on both axes, the matrix of
  \<open>Sequence [translation, inverse of the transformation]\<close> scales by one half, its inverse
  scales by 2, and the matrix passed on scales by one half.
\<close>

theorem resample_matrix_inverse_counterexample:
  "transform_raster [10, 10] [''y'', ''x''] (Scale [2, 2] [''y'', ''x'']) [] = Inr example_doubled
   \<and> resample_matrix example_doubled = [[1 / 2, 0, 0], [0, 1 / 2, 0], [0, 0, 1]]
   \<and> map (mat_vec [[2, 0, 0], [0, 2, 0], [0, 0, 1]]) (corner_points [10, 10] [''y'', ''x''])
       = [[0, 0, 1], [0, 20, 1], [20, 0, 1], [20, 20, 1]]
   \<and> inverse_transformation (Scale [2, 2] [''y'', ''x'']) = Inr (Scale [1 / 2, 1 / 2] [''y'', ''x''])
   \<and> to_affine_matrix (Sequence [Translation [0, 0] [''y'', ''x''],
                                  Scale [1 / 2, 1 / 2] [''y'', ''x'']]) [''y'', ''x'']
       = Inr [[1 / 2, 0, 0], [0, 1 / 2, 0], [0, 0, 1]]
   \<and> mat_inverse [[1 / 2, 0, 0], [0, 1 / 2, 0], [0, 0, 1]] = Some [[2, 0, 0], [0, 2, 0], [0, 0, 1]]
   \<and> resample_matrix example_doubled \<noteq> [[2, 0, 0], [0, 2, 0], [0, 0, 1]]
   \<and> mat_mul (resample_matrix example_doubled) [[1 / 2, 0, 0], [0, 1 / 2, 0], [0, 0, 1]] \<noteq> eye 3"
  by code_simp

section \<open>Translating a raster\<close>

lemma translation_raster_returns:
  assumes "length shape = length axes" "distinct axes" "axes_ok ax (length v) axes"
    and "0 \<notin> set (spatial_shape_of shape axes)"
  shows "\<exists>res. transform_raster shape axes (Translation v ax) kw = Inr res"
proof -
  let ?T = "translation_matrix (length axes) (\<lambda>i. axis_value ax v 0 (axes ! i))"
  let ?cp = "corner_points shape axes"
  let ?tvec = "map (\<lambda>i. np_min (col (map butlast (map (mat_vec ?T) ?cp)) i))
                 [0..<ncols (map butlast (map (mat_vec ?T) ?cp))]"
  have M: "to_affine_matrix (Translation v ax) axes = Inr ?T"
    using assms(3) by (simp add: translation_matrix_def)
  have len: "length ?T = length axes + 1"
    by (rule to_affine_matrix_length[OF M])
  have "length ?tvec = length axes"
    unfolding length_map ncols_new_v[OF len] by simp
  with assms(2) have ok: "axes_ok axes (length ?tvec) axes"
    by (simp only: axes_ok_def) simp
  have ok': "axes_ok ax (length (map uminus v)) axes"
    using assms(3) by simp
  from ok obtain A where A: "to_affine_matrix (Translation ?tvec axes) axes = Inr A"
    by (simp del: length_map)
  from ok' obtain B where B: "to_affine_matrix (Translation (map uminus v) ax) axes = Inr B"
    by (simp del: length_map)
  have S: "to_affine_matrix (Sequence [Translation ?tvec axes, Translation (map uminus v) ax]) axes
        = Inr (mat_mul B (mat_mul A (eye (length axes + 1))))"
    using A B by (simp del: to_affine_matrix.simps(2))
  show ?thesis
    using assms(1,2,4) M S
    by (simp add: transform_raster_def Let_def spatial_shape_of_def
          del: to_affine_matrix.simps)
qed




section \<open>Strings and tensors\<close>




end
